theory Spec2Isabelle
  imports Complex_Main "HOL-Library.Sublist"
begin

section \<open>The path engine of ezdxf (\<^verbatim>\<open>src/ezdxf/path/path.py\<close>)\<close>

text \<open>
  A \<^verbatim>\<open>Path\<close> is a start vertex and a list of commands (\<^verbatim>\<open>LineTo\<close>,
  \<^verbatim>\<open>Curve3To\<close>, \<^verbatim>\<open>Curve4To\<close>). The methods of the class mutate the object; here
  each of them takes the path and returns the path after the call. A method that can raise
  returns the path as the exception leaves it together with the exception, if any.
  A generator returns the points it yields together with the exception that ends it, if any.
\<close>

subsection \<open>Points and the geometry primitives the module imports\<close>

text \<open>
  Modelled from the spec: the point type \<^verbatim>\<open>Vec3\<close> of \<^verbatim>\<open>ezdxf.math\<close> is not part of the
  sources. It is an immutable triple of coordinates; \<^verbatim>\<open>Vec3(x, y)\<close> has \<^verbatim>\<open>z = 0\<close>,
  \<^verbatim>\<open>NULLVEC\<close> is the origin, \<^verbatim>\<open>Z_AXIS\<close> the unit vector in z, and \<^verbatim>\<open>v.replace(z=e)\<close>
  overrides z. Coordinates are taken as real numbers.
\<close>

datatype Vec3 = Vec3 (vx: real) (vy: real) (vz: real)

definition NULLVEC :: Vec3 where
  "NULLVEC = Vec3 0 0 0"

definition Z_AXIS :: Vec3 where
  "Z_AXIS = Vec3 0 0 1"

definition Vec3_xy :: "real \<Rightarrow> real \<Rightarrow> Vec3" where
  "Vec3_xy x y = Vec3 x y 0"

definition replace_z :: "Vec3 \<Rightarrow> real \<Rightarrow> Vec3" where
  "replace_z v z = Vec3 (vx v) (vy v) z"

text \<open>
  Modelled from the spec: the B\'ezier curve classes \<^verbatim>\<open>Bezier3P\<close> and \<^verbatim>\<open>Bezier4P\<close> of
  \<^verbatim>\<open>ezdxf.math\<close> are not part of the sources. A curve holds its control points
  (three, resp. four); \<^verbatim>\<open>reverse()\<close> is the curve with its control points in reversed
  order.
\<close>

datatype Bezier3P = Bezier3P (control_points3: "Vec3 \<times> Vec3 \<times> Vec3")

datatype Bezier4P = Bezier4P (control_points4: "Vec3 \<times> Vec3 \<times> Vec3 \<times> Vec3")

fun reverse3 :: "Bezier3P \<Rightarrow> Bezier3P" where
  "reverse3 (Bezier3P (s, c, e)) = Bezier3P (e, c, s)"

fun reverse4 :: "Bezier4P \<Rightarrow> Bezier4P" where
  "reverse4 (Bezier4P (s, c1, c2, e)) = Bezier4P (e, c2, c1, s)"

text \<open>\<^verbatim>\<open>curve.control_points[0]\<close> and \<^verbatim>\<open>curve.control_points[-1]\<close>.\<close>

fun last_point3 :: "Bezier3P \<Rightarrow> Vec3" where
  "last_point3 (Bezier3P (s, c, e)) = e"

fun first_point4 :: "Bezier4P \<Rightarrow> Vec3" where
  "first_point4 (Bezier4P (s, c1, c2, e)) = s"

fun last_point4 :: "Bezier4P \<Rightarrow> Vec3" where
  "last_point4 (Bezier4P (s, c1, c2, e)) = e"

text \<open>
  Modelled from the spec: the coordinate-frame converter \<^verbatim>\<open>OCS\<close> is not part of the
  sources. It maps a point to the world frame (\<^verbatim>\<open>to_wcs\<close>) and tells whether it is a
  non-identity transform (\<^verbatim>\<open>transform\<close>).
\<close>

record OCS =
  transform :: bool
  to_wcs :: "Vec3 \<Rightarrow> Vec3"

text \<open>
  Modelled from the spec: the B-spline evaluator \<^verbatim>\<open>BSpline\<close> is not part of the sources.
  The object is taken with the results of the methods and properties that the path engine
  calls.
\<close>

record BSpline =
  point :: "real \<Rightarrow> Vec3"
  degree :: int
  is_rational :: bool
  is_clamped :: bool
  bezier_decomposition :: "(Vec3 \<times> Vec3 \<times> Vec3 \<times> Vec3) list"
  cubic_bezier_approximation :: "int \<Rightarrow> Bezier4P list"

text \<open>
  The remaining functions of \<^verbatim>\<open>ezdxf.math\<close> that the path engine calls are parameters of
  the model, collected in one record; \<^typ>\<open>'e\<close> is the type of \<^verbatim>\<open>ConstructionEllipse\<close>.
  \<^item> \<open>isclose a b tol\<close> is \<^verbatim>\<open>a.isclose(b)\<close> for \<open>tol = None\<close> and
    \<^verbatim>\<open>a.isclose(b, abs_tol=t)\<close> for \<open>tol = Some t\<close>;
  \<^item> \<open>cubic_bezier_from_ellipse e None\<close> is \<^verbatim>\<open>cubic_bezier_from_ellipse(e)\<close> and
    \<open>cubic_bezier_from_ellipse e (Some n)\<close> is \<^verbatim>\<open>cubic_bezier_from_ellipse(e, n)\<close>;
  \<^item> \<open>bezier3_approximate\<close>, \<open>bezier4_approximate\<close> are
    \<^verbatim>\<open>Bezier3P(..).approximate(segments)\<close>, \<^verbatim>\<open>Bezier4P(..).approximate(segments)\<close>;
  \<^item> \<open>bezier3_flattening\<close>, \<open>bezier4_flattening\<close> are
    \<^verbatim>\<open>Bezier3P(..).flattening(distance, segments)\<close> and its cubic sibling.
\<close>

record 'e ezdxf_math =
  isclose :: "Vec3 \<Rightarrow> Vec3 \<Rightarrow> real option \<Rightarrow> bool"
  bulge_to_arc :: "Vec3 \<Rightarrow> Vec3 \<Rightarrow> real \<Rightarrow> Vec3 \<times> real \<times> real \<times> real"
  from_arc :: "Vec3 \<Rightarrow> real \<Rightarrow> Vec3 \<Rightarrow> real \<Rightarrow> real \<Rightarrow> 'e"
  cubic_bezier_from_ellipse :: "'e \<Rightarrow> int option \<Rightarrow> Bezier4P list"
  param_span :: "'e \<Rightarrow> real"
  start_point :: "'e \<Rightarrow> Vec3"
  bezier3_approximate :: "Bezier3P \<Rightarrow> int \<Rightarrow> Vec3 list"
  bezier4_approximate :: "Bezier4P \<Rightarrow> int \<Rightarrow> Vec3 list"
  bezier3_flattening :: "Bezier3P \<Rightarrow> real \<Rightarrow> int \<Rightarrow> Vec3 list"
  bezier4_flattening :: "Bezier4P \<Rightarrow> real \<Rightarrow> int \<Rightarrow> Vec3 list"

text \<open>\<^verbatim>\<open>math.degrees\<close>.\<close>

definition degrees :: "real \<Rightarrow> real" where
  "degrees r = r * 180 / pi"

subsection \<open>Commands and path elements\<close>

datatype Command = START_PATH | LINE_TO | CURVE3_TO | CURVE4_TO

text \<open>
  The three named tuples. \<^verbatim>\<open>end\<close> is a keyword of Isabelle, so the field \<^verbatim>\<open>end\<close> is
  \<open>cmd_end\<close> here.
\<close>

datatype PathElement =
    LineTo (cmd_end: Vec3)
  | Curve3To (cmd_end: Vec3) (ctrl: Vec3)
  | Curve4To (cmd_end: Vec3) (ctrl1: Vec3) (ctrl2: Vec3)

text \<open>The property \<^verbatim>\<open>type\<close> of the three classes.\<close>

fun cmd_type :: "PathElement \<Rightarrow> Command" where
  "cmd_type (LineTo e) = LINE_TO"
| "cmd_type (Curve3To e c) = CURVE3_TO"
| "cmd_type (Curve4To e c1 c2) = CURVE4_TO"

text \<open>The method \<^verbatim>\<open>to_wcs\<close> of the three classes.\<close>

fun cmd_to_wcs :: "PathElement \<Rightarrow> OCS \<Rightarrow> real \<Rightarrow> PathElement" where
  "cmd_to_wcs (LineTo e) ocs elevation = LineTo (to_wcs ocs (replace_z e elevation))"
| "cmd_to_wcs (Curve3To e c) ocs elevation =
     Curve3To (to_wcs ocs (replace_z e elevation)) (to_wcs ocs (replace_z c elevation))"
| "cmd_to_wcs (Curve4To e c1 c2) ocs elevation =
     Curve4To (to_wcs ocs (replace_z e elevation)) (to_wcs ocs (replace_z c1 elevation))
       (to_wcs ocs (replace_z c2 elevation))"

subsection \<open>The class \<^verbatim>\<open>Path\<close>\<close>

text \<open>The fields \<^verbatim>\<open>_start\<close> and \<^verbatim>\<open>_commands\<close>.\<close>

record Path =
  start :: Vec3
  commands :: "PathElement list"

text \<open>
  The exceptions of the module, by the kind of error the specification names:
  \<^item> \<open>InvalidState\<close>: \<^verbatim>\<open>ValueError('Requires an empty path.')\<close> of the start setter;
  \<^item> \<open>UnsupportedCommand\<close>: \<^verbatim>\<open>ValueError('Invalid command: ...')\<close> of the traversals;
  \<^item> \<open>IndexError\<close>: \<^verbatim>\<open>curves[0]\<close> on an empty list;
  \<^item> \<open>StopIterationError\<close>: \<^verbatim>\<open>next(pts)\<close> on an exhausted iterator inside a generator
    (a \<^verbatim>\<open>RuntimeError\<close> by PEP 479).
\<close>

datatype error = InvalidState | UnsupportedCommand | IndexError | StopIterationError

text \<open>\<^verbatim>\<open>Path.__init__\<close>, with \<^verbatim>\<open>Path()\<close> being \<open>new_Path NULLVEC\<close>.\<close>

definition new_Path :: "Vec3 \<Rightarrow> Path" where
  "new_Path s = \<lparr>start = s, commands = []\<rparr>"

text \<open>The setter of the property \<^verbatim>\<open>start\<close>.\<close>

definition start_setter :: "Path \<Rightarrow> Vec3 \<Rightarrow> Path \<times> error option" where
  "start_setter self location =
     (if length (commands self) \<noteq> 0 then (self, Some InvalidState)
      else (self\<lparr>start := location\<rparr>, None))"

text \<open>The property \<^verbatim>\<open>end\<close>.\<close>

definition Path_end :: "Path \<Rightarrow> Vec3" where
  "Path_end self =
     (if commands self \<noteq> [] then cmd_end (last (commands self)) else start self)"

text \<open>The property \<^verbatim>\<open>is_closed\<close>.\<close>

definition is_closed :: "'e ezdxf_math \<Rightarrow> Path \<Rightarrow> bool" where
  "is_closed M self = isclose M (start self) (Path_end self) None"

definition line_to :: "Path \<Rightarrow> Vec3 \<Rightarrow> Path" where
  "line_to self location = self\<lparr>commands := commands self @ [LineTo location]\<rparr>"

definition curve3_to :: "Path \<Rightarrow> Vec3 \<Rightarrow> Vec3 \<Rightarrow> Path" where
  "curve3_to self location c = self\<lparr>commands := commands self @ [Curve3To location c]\<rparr>"

definition curve4_to :: "Path \<Rightarrow> Vec3 \<Rightarrow> Vec3 \<Rightarrow> Vec3 \<Rightarrow> Path" where
  "curve4_to self location c1 c2 =
     self\<lparr>commands := commands self @ [Curve4To location c1 c2]\<rparr>"

definition close :: "'e ezdxf_math \<Rightarrow> Path \<Rightarrow> Path" where
  "close M self = (if \<not> is_closed M self then line_to self (start self) else self)"

text \<open>
  \<^verbatim>\<open>Path.reversed\<close>: the loop \<^verbatim>\<open>for index in range(len(self) - 1, -1, -1)\<close>, with
  \<open>Suc index\<close> indices left to visit, and its body.
\<close>

definition reversed_body :: "Path \<Rightarrow> nat \<Rightarrow> Path \<Rightarrow> Path" where
  "reversed_body self index path =
     (let cmd = commands self ! index;
          prev_end = (if index > 0 then cmd_end (commands self ! (index - 1)) else start self)
      in if cmd_type cmd = LINE_TO then line_to path prev_end
         else if cmd_type cmd = CURVE3_TO then curve3_to path prev_end (ctrl cmd)
         else if cmd_type cmd = CURVE4_TO then curve4_to path prev_end (ctrl2 cmd) (ctrl1 cmd)
         else path)"

fun reversed_loop :: "Path \<Rightarrow> nat \<Rightarrow> Path \<Rightarrow> Path" where
  "reversed_loop self 0 path = path"
| "reversed_loop self (Suc index) path = reversed_loop self index (reversed_body self index path)"

definition reversed :: "Path \<Rightarrow> Path" where
  "reversed self =
     (if length (commands self) = 0 then new_Path NULLVEC
      else reversed_loop self (length (commands self)) (new_Path (Path_end self)))"

subsection \<open>Adding chains of B\'ezier curves\<close>

text \<open>
  \<^verbatim>\<open>_reverse_bezier_curves\<close>, once for each of the two curve classes it is called with.
\<close>

definition reverse_bezier_curves3 :: "Bezier3P list \<Rightarrow> Bezier3P list" where
  "reverse_bezier_curves3 curves = rev (map reverse3 curves)"

definition reverse_bezier_curves4 :: "Bezier4P list \<Rightarrow> Bezier4P list" where
  "reverse_bezier_curves4 curves = rev (map reverse4 curves)"

text \<open>The literal \<^verbatim>\<open>1e-9\<close>.\<close>

definition abs_tol_1e9 :: real where
  "abs_tol_1e9 = 1 / 1000000000"

text \<open>The loop \<^verbatim>\<open>for curve in curves\<close> of \<^verbatim>\<open>add_curves4\<close>.\<close>

fun add_curves4_loop :: "'e ezdxf_math \<Rightarrow> Path \<Rightarrow> Bezier4P list \<Rightarrow> Path" where
  "add_curves4_loop M self [] = self"
| "add_curves4_loop M self (curve # curves) =
     (case control_points4 curve of
        (start_pt, c1, c2, end_pt) \<Rightarrow>
          (let self1 = (if \<not> isclose M start_pt (Path_end self) (Some abs_tol_1e9)
                        then line_to self start_pt else self)
           in add_curves4_loop M (curve4_to self1 end_pt c1 c2) curves))"

definition add_curves4 :: "'e ezdxf_math \<Rightarrow> Path \<Rightarrow> Bezier4P list \<Rightarrow> Path" where
  "add_curves4 M self curves =
     (if length curves = 0 then self
      else
        (let end_pt = last_point4 (last curves);
             curves1 = (if isclose M (Path_end self) end_pt None
                        then reverse_bezier_curves4 curves else curves)
         in add_curves4_loop M self curves1))"

text \<open>The loop \<^verbatim>\<open>for curve in curves\<close> of \<^verbatim>\<open>add_curves3\<close>.\<close>

fun add_curves3_loop :: "'e ezdxf_math \<Rightarrow> Path \<Rightarrow> Bezier3P list \<Rightarrow> Path" where
  "add_curves3_loop M self [] = self"
| "add_curves3_loop M self (curve # curves) =
     (case control_points3 curve of
        (start_pt, c, end_pt) \<Rightarrow>
          (let self1 = (if \<not> isclose M start_pt (Path_end self) (Some abs_tol_1e9)
                        then line_to self start_pt else self)
           in add_curves3_loop M (curve3_to self1 end_pt c) curves))"

definition add_curves3 :: "'e ezdxf_math \<Rightarrow> Path \<Rightarrow> Bezier3P list \<Rightarrow> Path" where
  "add_curves3 M self curves =
     (if length curves = 0 then self
      else
        (let end_pt = last_point3 (last curves);
             curves1 = (if isclose M (Path_end self) end_pt None
                        then reverse_bezier_curves3 curves else curves)
         in add_curves3_loop M self curves1))"

subsection \<open>Vertices, polylines with bulges, ellipses and splines\<close>

text \<open>\<^verbatim>\<open>Path.from_vertices\<close>; its loop \<^verbatim>\<open>for vertex in vertices[1:]\<close> first.\<close>

fun line_to_each :: "Path \<Rightarrow> Vec3 list \<Rightarrow> Path" where
  "line_to_each path [] = path"
| "line_to_each path (vertex # vertices) = line_to_each (line_to path vertex) vertices"

definition from_vertices :: "'e ezdxf_math \<Rightarrow> Vec3 list \<Rightarrow> bool \<Rightarrow> Path" where
  "from_vertices M vertices do_close =
     (if length vertices < 2 then new_Path NULLVEC
      else
        (let path = line_to_each (new_Path (vertices ! 0)) (drop 1 vertices)
         in if do_close then close M path else path))"

text \<open>\<^verbatim>\<open>Path._to_wcs\<close>.\<close>

definition Path_to_wcs :: "Path \<Rightarrow> OCS \<Rightarrow> real \<Rightarrow> Path" where
  "Path_to_wcs self ocs elevation =
     \<lparr>start = to_wcs ocs (replace_z (start self) elevation),
      commands = map (\<lambda>cmd. cmd_to_wcs cmd ocs elevation) (commands self)\<rparr>"

text \<open>
  The local function \<^verbatim>\<open>bulge_to\<close> of \<^verbatim>\<open>add_2d_polyline\<close>.
  \<^verbatim>\<open>cubic_bezier_from_ellipse(ellipse)\<close> is called without \<^verbatim>\<open>segments\<close>, which is
  \<open>None\<close> here; \<^verbatim>\<open>curves[0]\<close> raises on an empty list.
\<close>

definition bulge_to ::
  "'e ezdxf_math \<Rightarrow> Path \<Rightarrow> Vec3 \<Rightarrow> Vec3 \<Rightarrow> real \<Rightarrow> Path \<times> error option" where
  "bulge_to M self p1 p2 bulge =
     (if isclose M p1 p2 None then (self, None)
      else
        (case bulge_to_arc M p1 p2 bulge of
           (center, start_angle, end_angle, radius) \<Rightarrow>
             (let ellipse = from_arc M center radius Z_AXIS
                              (degrees start_angle) (degrees end_angle);
                  curves = cubic_bezier_from_ellipse M ellipse None
              in case curves of
                   [] \<Rightarrow> (self, Some IndexError)
                 | curve0 # _ \<Rightarrow>
                     (let cp0 = first_point4 curve0;
                          curves1 = (if isclose M cp0 p2 None
                                     then reverse_bezier_curves4 curves else curves)
                      in (add_curves4 M self curves1, None)))))"

text \<open>
  The loop \<^verbatim>\<open>for x, y, bulge in points\<close> of \<^verbatim>\<open>add_2d_polyline\<close>. The state is the path,
  \<^verbatim>\<open>prev_point\<close> (\<open>None\<close> as in the source) and \<^verbatim>\<open>prev_bulge\<close>; the result is the path and
  \<^verbatim>\<open>prev_bulge\<close> after the loop, and the exception that left it, if any.
\<close>

fun polyline_loop ::
  "'e ezdxf_math \<Rightarrow> Path \<Rightarrow> Vec3 option \<Rightarrow> real \<Rightarrow> (real \<times> real \<times> real) list
     \<Rightarrow> (Path \<times> real) \<times> error option" where
  "polyline_loop M self prev_point prev_bulge [] = ((self, prev_bulge), None)"
| "polyline_loop M self prev_point prev_bulge ((x, y, bulge0) # points) =
     (let bulge = (if \<bar>bulge0\<bar> < 1 / 1000000 then 0 else bulge0);
          pt = Vec3_xy x y
      in case prev_point of
           None \<Rightarrow> polyline_loop M (self\<lparr>start := pt\<rparr>) (Some pt) bulge points
         | Some prev \<Rightarrow>
             (if prev_bulge \<noteq> 0 then
                (case bulge_to M self prev pt prev_bulge of
                   (self1, Some e) \<Rightarrow> ((self1, prev_bulge), Some e)
                 | (self1, None) \<Rightarrow> polyline_loop M self1 (Some pt) bulge points)
              else polyline_loop M (line_to self pt) (Some pt) bulge points))"

definition add_2d_polyline ::
  "'e ezdxf_math \<Rightarrow> Path \<Rightarrow> (real \<times> real \<times> real) list \<Rightarrow> bool \<Rightarrow> OCS \<Rightarrow> real
     \<Rightarrow> Path \<times> error option" where
  "add_2d_polyline M self points do_close ocs elevation =
     (case polyline_loop M self None 0 points of
        ((self1, prev_bulge), Some e) \<Rightarrow> (self1, Some e)
      | ((self1, prev_bulge), None) \<Rightarrow>
          (case (if do_close \<and> \<not> isclose M (start self1) (Path_end self1) None then
                   (if prev_bulge \<noteq> 0
                    then bulge_to M self1 (Path_end self1) (start self1) prev_bulge
                    else (line_to self1 (start self1), None))
                 else (self1, None)) of
             (self2, Some e) \<Rightarrow> (self2, Some e)
           | (self2, None) \<Rightarrow>
               (if transform ocs \<or> elevation \<noteq> 0
                then (Path_to_wcs self2 ocs elevation, None)
                else (self2, None))))"

definition add_ellipse ::
  "'e ezdxf_math \<Rightarrow> Path \<Rightarrow> 'e \<Rightarrow> int \<Rightarrow> bool \<Rightarrow> Path \<times> error option" where
  "add_ellipse M self ellipse segments reset =
     (if \<bar>param_span M ellipse\<bar> < abs_tol_1e9 then (self, None)
      else
        (case (if length (commands self) = 0 \<and> reset
               then start_setter self (start_point M ellipse) else (self, None)) of
           (self1, Some e) \<Rightarrow> (self1, Some e)
         | (self1, None) \<Rightarrow>
             (add_curves4 M self1 (cubic_bezier_from_ellipse M ellipse (Some segments)), None)))"

definition add_spline ::
  "'e ezdxf_math \<Rightarrow> Path \<Rightarrow> BSpline \<Rightarrow> int \<Rightarrow> bool \<Rightarrow> Path \<times> error option" where
  "add_spline M self spline level reset =
     (case (if length (commands self) = 0 \<and> reset
            then start_setter self (point spline 0) else (self, None)) of
        (self1, Some e) \<Rightarrow> (self1, Some e)
      | (self1, None) \<Rightarrow>
          (let curves = (if degree spline = 3 \<and> \<not> is_rational spline \<and> is_clamped spline
                         then map Bezier4P (bezier_decomposition spline)
                         else cubic_bezier_approximation spline level)
           in (add_curves4 M self1 curves, None)))"

subsection \<open>Sampling\<close>

text \<open>
  \<^verbatim>\<open>yield from pts\<close> in front of what the rest of a generator yields.
\<close>

definition yield_from :: "Vec3 list \<Rightarrow> Vec3 list \<times> error option \<Rightarrow> Vec3 list \<times> error option" where
  "yield_from pts rest = (pts @ fst rest, snd rest)"

text \<open>
  The command list of a path is a Python list, and \<^verbatim>\<open>Path._approximate\<close> reads each of its
  elements through the attributes \<^verbatim>\<open>type\<close>, \<^verbatim>\<open>end\<close>, \<^verbatim>\<open>ctrl\<close>, \<^verbatim>\<open>ctrl1\<close> and
  \<^verbatim>\<open>ctrl2\<close> only. The traversal is therefore defined for elements of any type \<^typ>\<open>'c\<close>,
  given how these attributes are read; for the three classes of path elements they are the
  fields of the named tuples and the property \<^verbatim>\<open>type\<close>.
\<close>

record 'c element_attributes =
  attr_type :: "'c \<Rightarrow> Command"
  attr_end :: "'c \<Rightarrow> Vec3"
  attr_ctrl :: "'c \<Rightarrow> Vec3"
  attr_ctrl1 :: "'c \<Rightarrow> Vec3"
  attr_ctrl2 :: "'c \<Rightarrow> Vec3"

definition PathElement_attributes :: "PathElement element_attributes" where
  "PathElement_attributes =
     \<lparr>attr_type = cmd_type, attr_end = cmd_end, attr_ctrl = ctrl,
      attr_ctrl1 = ctrl1, attr_ctrl2 = ctrl2\<rparr>"

text \<open>
  The loop \<^verbatim>\<open>for cmd in self._commands\<close> of \<^verbatim>\<open>Path._approximate\<close>: \<open>start_pt\<close> is the
  local variable \<^verbatim>\<open>start\<close>. \<^verbatim>\<open>next(pts)\<close> raises when the curve yields no point at all.
\<close>

fun approximate_loop ::
  "'c element_attributes
     \<Rightarrow> (Vec3 \<Rightarrow> Vec3 \<Rightarrow> Vec3 \<Rightarrow> Vec3 list) \<Rightarrow> (Vec3 \<Rightarrow> Vec3 \<Rightarrow> Vec3 \<Rightarrow> Vec3 \<Rightarrow> Vec3 list)
     \<Rightarrow> Vec3 \<Rightarrow> 'c list \<Rightarrow> Vec3 list \<times> error option" where
  "approximate_loop A approx_curve3 approx_curve4 start_pt [] = ([], None)"
| "approximate_loop A approx_curve3 approx_curve4 start_pt (cmd # cmds) =
     (let end_location = attr_end A cmd
      in if attr_type A cmd = LINE_TO then
           yield_from [end_location]
             (approximate_loop A approx_curve3 approx_curve4 end_location cmds)
         else if attr_type A cmd = CURVE3_TO then
           (case approx_curve3 start_pt (attr_ctrl A cmd) end_location of
              [] \<Rightarrow> ([], Some StopIterationError)
            | p # pts \<Rightarrow>
                yield_from pts
                  (approximate_loop A approx_curve3 approx_curve4 end_location cmds))
         else if attr_type A cmd = CURVE4_TO then
           (case approx_curve4 start_pt (attr_ctrl1 A cmd) (attr_ctrl2 A cmd) end_location of
              [] \<Rightarrow> ([], Some StopIterationError)
            | p # pts \<Rightarrow>
                yield_from pts
                  (approximate_loop A approx_curve3 approx_curve4 end_location cmds))
         else ([], Some UnsupportedCommand))"

text \<open>
  The body of \<^verbatim>\<open>Path._approximate\<close> for a start point \<^verbatim>\<open>self._start\<close> and a command list
  \<^verbatim>\<open>self._commands\<close>, and \<^verbatim>\<open>Path._approximate\<close> on a path.
\<close>

definition approximate_commands ::
  "'c element_attributes \<Rightarrow> Vec3 \<Rightarrow> 'c list
     \<Rightarrow> (Vec3 \<Rightarrow> Vec3 \<Rightarrow> Vec3 \<Rightarrow> Vec3 list) \<Rightarrow> (Vec3 \<Rightarrow> Vec3 \<Rightarrow> Vec3 \<Rightarrow> Vec3 \<Rightarrow> Vec3 list)
     \<Rightarrow> Vec3 list \<times> error option" where
  "approximate_commands A start_pt cmds approx_curve3 approx_curve4 =
     (if cmds = [] then ([], None)
      else yield_from [start_pt]
             (approximate_loop A approx_curve3 approx_curve4 start_pt cmds))"

definition Path_approximate ::
  "Path \<Rightarrow> (Vec3 \<Rightarrow> Vec3 \<Rightarrow> Vec3 \<Rightarrow> Vec3 list) \<Rightarrow> (Vec3 \<Rightarrow> Vec3 \<Rightarrow> Vec3 \<Rightarrow> Vec3 \<Rightarrow> Vec3 list)
     \<Rightarrow> Vec3 list \<times> error option" where
  "Path_approximate self approx_curve3 approx_curve4 =
     approximate_commands PathElement_attributes (start self) (commands self)
       approx_curve3 approx_curve4"

definition approximate :: "'e ezdxf_math \<Rightarrow> Path \<Rightarrow> int \<Rightarrow> Vec3 list \<times> error option" where
  "approximate M self segments =
     Path_approximate self
       (\<lambda>s c e. bezier3_approximate M (Bezier3P (s, c, e)) segments)
       (\<lambda>s c1 c2 e. bezier4_approximate M (Bezier4P (s, c1, c2, e)) segments)"

definition flattening ::
  "'e ezdxf_math \<Rightarrow> Path \<Rightarrow> real \<Rightarrow> int \<Rightarrow> Vec3 list \<times> error option" where
  "flattening M self distance segments =
     Path_approximate self
       (\<lambda>s c e. bezier3_flattening M (Bezier3P (s, c, e)) distance segments)
       (\<lambda>s c1 c2 e. bezier4_flattening M (Bezier4P (s, c1, c2, e)) distance segments)"

subsection \<open>Notions of the specification\<close>

text \<open>
  The commands that a chain of cubic (quadratic) curves contributes when it is traversed in
  the given order from the running end \<open>e\<close>: for each curve a connecting line to its start
  point exactly when that start point is not close to the running end, then the curve itself;
  the running end moves to the end point of the curve.
\<close>

fun chain4 :: "'e ezdxf_math \<Rightarrow> Vec3 \<Rightarrow> Bezier4P list \<Rightarrow> PathElement list" where
  "chain4 M e [] = []"
| "chain4 M e (Bezier4P (s, c1, c2, e') # curves) =
     (if isclose M s e (Some abs_tol_1e9) then [] else [LineTo s])
       @ Curve4To e' c1 c2 # chain4 M e' curves"

fun chain3 :: "'e ezdxf_math \<Rightarrow> Vec3 \<Rightarrow> Bezier3P list \<Rightarrow> PathElement list" where
  "chain3 M e [] = []"
| "chain3 M e (Bezier3P (s, c, e') # curves) =
     (if isclose M s e (Some abs_tol_1e9) then [] else [LineTo s])
       @ Curve3To e' c # chain3 M e' curves"

text \<open>
  The points that the commands of a path contribute to a sampling after the start point,
  the segments starting at \<open>s\<close>: a line its end point, a curve its samples without the first.
\<close>

fun joint_points ::
  "(Vec3 \<Rightarrow> Vec3 \<Rightarrow> Vec3 \<Rightarrow> Vec3 list) \<Rightarrow> (Vec3 \<Rightarrow> Vec3 \<Rightarrow> Vec3 \<Rightarrow> Vec3 \<Rightarrow> Vec3 list)
     \<Rightarrow> Vec3 \<Rightarrow> PathElement list \<Rightarrow> Vec3 list" where
  "joint_points f3 f4 s [] = []"
| "joint_points f3 f4 s (LineTo e # cmds) = e # joint_points f3 f4 e cmds"
| "joint_points f3 f4 s (Curve3To e c # cmds) = tl (f3 s c e) @ joint_points f3 f4 e cmds"
| "joint_points f3 f4 s (Curve4To e c1 c2 # cmds) =
     tl (f4 s c1 c2 e) @ joint_points f3 f4 e cmds"

text \<open>
  What the sampling of a path needs from the B\'ezier evaluators: for \<open>n \<ge> 1\<close> segments
  (and a distance \<open>d > 0\<close>) a curve yields at least two points, the last of which is its
  last control point.
\<close>

definition samplers_reach_end :: "'e ezdxf_math \<Rightarrow> bool" where
  "samplers_reach_end M \<longleftrightarrow>
     (\<forall>b n. 1 \<le> n \<longrightarrow>
        2 \<le> length (bezier3_approximate M b n) \<and>
        last (bezier3_approximate M b n) = last_point3 b) \<and>
     (\<forall>b n. 1 \<le> n \<longrightarrow>
        2 \<le> length (bezier4_approximate M b n) \<and>
        last (bezier4_approximate M b n) = last_point4 b) \<and>
     (\<forall>b d n. 0 < d \<and> 1 \<le> n \<longrightarrow>
        2 \<le> length (bezier3_flattening M b d n) \<and>
        last (bezier3_flattening M b d n) = last_point3 b) \<and>
     (\<forall>b d n. 0 < d \<and> 1 \<le> n \<longrightarrow>
        2 \<le> length (bezier4_flattening M b d n) \<and>
        last (bezier4_flattening M b d n) = last_point4 b)"

text \<open>
  A command as \<^verbatim>\<open>Path.reversed\<close> rewrites it: the new end point \<open>p\<close>, the control points of
  a cubic curve swapped, the control point of a quadratic curve kept.
\<close>

fun reversed_cmd :: "PathElement \<Rightarrow> Vec3 \<Rightarrow> PathElement" where
  "reversed_cmd (LineTo e) p = LineTo p"
| "reversed_cmd (Curve3To e c) p = Curve3To p c"
| "reversed_cmd (Curve4To e c1 c2) p = Curve4To p c2 c1"

text \<open>
  The end point of the command before index \<open>i\<close> of a path, which is the start point of the
  path for the first command.
\<close>

definition end_before :: "Path \<Rightarrow> nat \<Rightarrow> Vec3" where
  "end_before P i = (if i = 0 then start P else cmd_end (commands P ! (i - 1)))"

text \<open>The kinds of command that the traversals handle.\<close>

definition supported_kind :: "Command \<Rightarrow> bool" where
  "supported_kind k \<longleftrightarrow> k = LINE_TO \<or> k = CURVE3_TO \<or> k = CURVE4_TO"

text \<open>A path all of whose commands are of a kind that the traversals handle.\<close>

definition commands_supported :: "Path \<Rightarrow> bool" where
  "commands_supported P \<longleftrightarrow> (\<forall>c \<in> set (commands P). supported_kind (cmd_type c))"

text \<open>
  The paths that the public interface builds: a new path, \<^verbatim>\<open>from_vertices\<close>, and every
  path a mutating method leaves behind, also when it raises.
\<close>

inductive built_by_api :: "'e ezdxf_math \<Rightarrow> Path \<Rightarrow> bool" for M :: "'e ezdxf_math" where
  built_new: "built_by_api M (new_Path s)"
| built_from_vertices: "built_by_api M (from_vertices M vertices do_close)"
| built_line_to: "built_by_api M P \<Longrightarrow> built_by_api M (line_to P v)"
| built_curve3_to: "built_by_api M P \<Longrightarrow> built_by_api M (curve3_to P v c)"
| built_curve4_to: "built_by_api M P \<Longrightarrow> built_by_api M (curve4_to P v c1 c2)"
| built_close: "built_by_api M P \<Longrightarrow> built_by_api M (close M P)"
| built_add_curves3: "built_by_api M P \<Longrightarrow> built_by_api M (add_curves3 M P curves3)"
| built_add_curves4: "built_by_api M P \<Longrightarrow> built_by_api M (add_curves4 M P curves4)"
| built_add_2d_polyline:
    "built_by_api M P \<Longrightarrow> built_by_api M (fst (add_2d_polyline M P points do_close ocs elevation))"
| built_add_ellipse:
    "built_by_api M P \<Longrightarrow> built_by_api M (fst (add_ellipse M P ellipse segments reset))"
| built_add_spline:
    "built_by_api M P \<Longrightarrow> built_by_api M (fst (add_spline M P spline level reset))"

text \<open>
  Modelled from the spec: the approximate-equality test of the point type is not part of the
  sources. Two points are close when each coordinate differs by at most the tolerance, which
  is \<open>1e-9\<close> unless one is given. The theorems below hold for every test \<open>isclose M\<close>; this
  one serves the worked examples.
\<close>

definition Vec3_isclose :: "Vec3 \<Rightarrow> Vec3 \<Rightarrow> real option \<Rightarrow> bool" where
  "Vec3_isclose a b tol =
     (let t = (case tol of None \<Rightarrow> abs_tol_1e9 | Some t \<Rightarrow> t)
      in \<bar>vx a - vx b\<bar> \<le> t \<and> \<bar>vy a - vy b\<bar> \<le> t \<and> \<bar>vz a - vz b\<bar> \<le> t)"

text \<open>
  Geometry primitives for the worked examples: the point test above; an ellipse is a centre
  and a radius and yields one curve, from the point right of the centre over the top to the
  point left of it; the arc of a bulge lies around the midpoint of its two points; the
  B\'ezier evaluators return the control polygon of the curve.
\<close>

definition example_math :: "(Vec3 \<times> real) ezdxf_math" where
  "example_math =
     \<lparr>isclose = Vec3_isclose,
      bulge_to_arc =
        (\<lambda>p1 p2 b. (Vec3 ((vx p1 + vx p2) / 2) ((vy p1 + vy p2) / 2) 0, 0, 0,
                     \<bar>vx p1 - vx p2\<bar> / 2)),
      from_arc = (\<lambda>c r n a b. (c, r)),
      cubic_bezier_from_ellipse =
        (\<lambda>e n. case e of (c, r) \<Rightarrow>
           [Bezier4P (Vec3 (vx c + r) (vy c) 0, Vec3 (vx c + r) (vy c + r) 0,
                      Vec3 (vx c - r) (vy c + r) 0, Vec3 (vx c - r) (vy c) 0)]),
      param_span = (\<lambda>e. 1),
      start_point = (\<lambda>e. case e of (c, r) \<Rightarrow> Vec3 (vx c + r) (vy c) 0),
      bezier3_approximate = (\<lambda>b n. case control_points3 b of (s, c, e) \<Rightarrow> [s, c, e]),
      bezier4_approximate = (\<lambda>b n. case control_points4 b of (s, c1, c2, e) \<Rightarrow> [s, c1, c2, e]),
      bezier3_flattening = (\<lambda>b d n. case control_points3 b of (s, c, e) \<Rightarrow> [s, c, e]),
      bezier4_flattening =
        (\<lambda>b d n. case control_points4 b of (s, c1, c2, e) \<Rightarrow> [s, c1, c2, e])\<rparr>"

section \<open>Properties\<close>

subsection \<open>The end point after an append\<close>

lemma Path_end_line_to [simp]: "Path_end (line_to P v) = v"
  by (simp add: Path_end_def line_to_def)

lemma Path_end_curve3_to [simp]: "Path_end (curve3_to P v c) = v"
  by (simp add: Path_end_def curve3_to_def)

lemma Path_end_curve4_to [simp]: "Path_end (curve4_to P v c1 c2) = v"
  by (simp add: Path_end_def curve4_to_def)

subsection \<open>The end point, the start setter and closing\<close>

text \<open>
  C5. For every path, \<^verbatim>\<open>end\<close> is the start point when the path has no commands and the end
  point of the last command otherwise: whatever commands precede a last command \<open>cmd\<close>, the
  end of the path is the end point of \<open>cmd\<close>.
\<close>

theorem end_consistency:
  "(commands P = [] \<longrightarrow> Path_end P = start P) \<and>
   (commands P \<noteq> [] \<longrightarrow> Path_end P = cmd_end (last (commands P))) \<and>
   (\<forall>cmds cmd. commands P = cmds @ [cmd] \<longrightarrow> Path_end P = cmd_end cmd)"
  by (simp add: Path_end_def)

theorem end_consistency_witness:
  "Path_end (new_Path (Vec3 1 2 3)) = Vec3 1 2 3 \<and>
   Path_end (curve3_to (line_to (new_Path NULLVEC) (Vec3 1 0 0)) (Vec3 2 1 0) (Vec3 2 0 0))
     = Vec3 2 1 0"
  using end_consistency [of "new_Path (Vec3 1 2 3)"]
    end_consistency
      [of "curve3_to (line_to (new_Path NULLVEC) (Vec3 1 0 0)) (Vec3 2 1 0) (Vec3 2 0 0)"]
  by (simp add: new_Path_def line_to_def curve3_to_def)

text \<open>
  C6. Assigning \<^verbatim>\<open>start\<close> sets the start point to the given location when the path has no
  commands; when it has at least one command the assignment raises the error of kind
  \<open>InvalidState\<close> and the path is as it was.
\<close>

theorem start_setter_guard:
  "(commands P = [] \<longrightarrow> start_setter P location = (P\<lparr>start := location\<rparr>, None)) \<and>
   (commands P \<noteq> [] \<longrightarrow> start_setter P location = (P, Some InvalidState))"
  by (simp add: start_setter_def)

theorem start_setter_guard_witness:
  "start_setter (new_Path NULLVEC) (Vec3 1 2 3) = (new_Path (Vec3 1 2 3), None) \<and>
   start_setter (line_to (new_Path NULLVEC) (Vec3 1 0 0)) (Vec3 1 2 3)
     = (line_to (new_Path NULLVEC) (Vec3 1 0 0), Some InvalidState)"
  using start_setter_guard [of "new_Path NULLVEC" "Vec3 1 2 3"]
    start_setter_guard [of "line_to (new_Path NULLVEC) (Vec3 1 0 0)" "Vec3 1 2 3"]
  by (simp add: new_Path_def line_to_def)

text \<open>
  C7. \<^verbatim>\<open>close()\<close> appends exactly the one command \<^verbatim>\<open>LineTo(start)\<close> when \<^verbatim>\<open>is_closed\<close> is
  false at the call, and nothing otherwise; it never moves the start point. Where the point
  test finds the start point close to itself, the path is closed after the first call, a
  second call changes nothing, and the two calls together append at most one command.
\<close>

theorem close_idempotent:
  "commands (close M P) =
     (if is_closed M P then commands P else commands P @ [LineTo (start P)]) \<and>
   start (close M P) = start P \<and>
   (isclose M (start P) (start P) None \<longrightarrow>
      is_closed M (close M P) \<and>
      close M (close M P) = close M P \<and>
      length (commands (close M (close M P))) \<le> length (commands P) + 1)"
  by (simp add: close_def is_closed_def line_to_def Path_end_def)

theorem close_idempotent_witness:
  "isclose example_math (Vec3 0 0 0) (Vec3 0 0 0) None \<and>
   commands (close example_math (line_to (new_Path (Vec3 0 0 0)) (Vec3 1 0 0)))
     = [LineTo (Vec3 1 0 0), LineTo (Vec3 0 0 0)] \<and>
   commands (close example_math (close example_math (line_to (new_Path (Vec3 0 0 0)) (Vec3 1 0 0))))
     = [LineTo (Vec3 1 0 0), LineTo (Vec3 0 0 0)] \<and>
   is_closed example_math (close example_math (line_to (new_Path (Vec3 0 0 0)) (Vec3 1 0 0)))"
  using close_idempotent [of example_math "line_to (new_Path (Vec3 0 0 0)) (Vec3 1 0 0)"]
  by (simp add: example_math_def Vec3_isclose_def abs_tol_1e9_def new_Path_def line_to_def
      is_closed_def Path_end_def)

subsection \<open>Reversing a path\<close>

lemma reversed_body_eq:
  "reversed_body self index path =
     path\<lparr>commands := commands path @ [reversed_cmd (commands self ! index) (end_before self index)]\<rparr>"
  by (cases "commands self ! index")
    (simp_all add: reversed_body_def end_before_def line_to_def curve3_to_def curve4_to_def)

lemma reversed_loop_eq:
  "reversed_loop self k path =
     path\<lparr>commands := commands path
        @ map (\<lambda>i. reversed_cmd (commands self ! i) (end_before self i)) (rev [0..<k])\<rparr>"
  by (induction k arbitrary: path) (simp_all add: reversed_body_eq)

lemma reversed_nonempty:
  "commands P \<noteq> [] \<Longrightarrow>
   reversed P =
     \<lparr>start = Path_end P,
      commands = map (\<lambda>i. reversed_cmd (commands P ! i) (end_before P i))
                   (rev [0..<length (commands P)])\<rparr>"
  by (simp add: reversed_def reversed_loop_eq new_Path_def)

lemma reversed_empty: "commands P = [] \<Longrightarrow> reversed P = new_Path NULLVEC"
  by (simp add: reversed_def)

lemma cmd_end_reversed_cmd [simp]: "cmd_end (reversed_cmd c p) = p"
  by (cases c) simp_all

lemma reversed_cmd_twice [simp]: "reversed_cmd (reversed_cmd c p) (cmd_end c) = c"
  by (cases c) simp_all

lemma cmd_type_reversed_cmd [simp]: "cmd_type (reversed_cmd c p) = cmd_type c"
  by (cases c) simp_all

text \<open>
  C4, as amended. For every path \<open>P\<close> with at least one command, \<^verbatim>\<open>reversed()\<close> is a path
  that starts at the end of \<open>P\<close> and holds the commands of \<open>P\<close> in reversed order: the
  command at index \<open>i\<close> of the result is the command at index \<open>n - 1 - i\<close> of \<open>P\<close> with
  its end point replaced by the end point of the command before it in \<open>P\<close> (the start of
  \<open>P\<close> for the first command of \<open>P\<close>), the two control points of a cubic curve swapped,
  the control point of a quadratic curve kept, a line carrying only the new end. A path with
  no commands reverses to the empty path at the origin, whatever its start point.
\<close>

theorem reversed_commands:
  "(commands P \<noteq> [] \<longrightarrow>
      start (reversed P) = Path_end P \<and>
      length (commands (reversed P)) = length (commands P) \<and>
      (\<forall>i < length (commands P).
         commands (reversed P) ! i =
           reversed_cmd (commands P ! (length (commands P) - 1 - i))
             (end_before P (length (commands P) - 1 - i)))) \<and>
   (commands P = [] \<longrightarrow> reversed P = new_Path NULLVEC)"
  by (simp add: reversed_nonempty reversed_empty rev_nth)

theorem reversed_commands_witness:
  "reversed \<lparr>start = Vec3 0 0 0,
             commands = [LineTo (Vec3 1 0 0), Curve4To (Vec3 2 1 0) (Vec3 1 1 0) (Vec3 2 0 0)]\<rparr>
     = \<lparr>start = Vec3 2 1 0,
        commands = [Curve4To (Vec3 1 0 0) (Vec3 2 0 0) (Vec3 1 1 0), LineTo (Vec3 0 0 0)]\<rparr> \<and>
   reversed (new_Path (Vec3 1 0 0)) = new_Path NULLVEC"
proof -
  let ?P = "\<lparr>start = Vec3 0 0 0,
             commands = [LineTo (Vec3 1 0 0), Curve4To (Vec3 2 1 0) (Vec3 1 1 0) (Vec3 2 0 0)]\<rparr>"
  have n: "commands ?P \<noteq> []" by simp
  have "commands (reversed ?P) ! 0 = Curve4To (Vec3 1 0 0) (Vec3 2 0 0) (Vec3 1 1 0)"
    and "commands (reversed ?P) ! 1 = LineTo (Vec3 0 0 0)"
    and "length (commands (reversed ?P)) = 2"
    and "start (reversed ?P) = Vec3 2 1 0"
    using reversed_commands [of ?P] by (simp_all add: end_before_def Path_end_def)
  moreover have "reversed (new_Path (Vec3 1 0 0)) = new_Path NULLVEC"
    using reversed_commands [of "new_Path (Vec3 1 0 0)"] by (simp add: new_Path_def)
  ultimately show ?thesis
    by (cases "reversed ?P") (auto simp: nth_equalityI list_eq_iff_nth_eq less_Suc_eq numeral_2_eq_2)
qed

text \<open>
  The claim C4 as stated fails for an empty path whose start is not the origin: the reversed
  path does not start at the end of the path.
\<close>

theorem reversed_start_counterexample:
  "start (reversed (new_Path (Vec3 1 0 0))) \<noteq> Path_end (new_Path (Vec3 1 0 0))"
  by (simp add: reversed_def new_Path_def NULLVEC_def Path_end_def)

text \<open>
  C3, as amended. For every path \<open>P\<close>, reversing twice gives the commands of \<open>P\<close> back:
  the same number of commands, of the same kinds, in the same order, with the same points.
  When \<open>P\<close> has at least one command the result is \<open>P\<close> itself, start point included; when
  \<open>P\<close> has no commands the result starts at the origin.
\<close>

theorem reversed_reversed:
  "commands (reversed (reversed P)) = commands P \<and>
   map cmd_type (commands (reversed (reversed P))) = map cmd_type (commands P) \<and>
   (commands P \<noteq> [] \<longrightarrow> reversed (reversed P) = P) \<and>
   (commands P = [] \<longrightarrow> start (reversed (reversed P)) = NULLVEC)"
proof (cases "commands P = []")
  case True
  then show ?thesis by (simp add: reversed_def new_Path_def)
next
  case False
  let ?n = "length (commands P)"
  let ?Q = "reversed P"
  have n: "0 < ?n" using False by simp
  have Q: "?Q = \<lparr>start = Path_end P,
      commands = map (\<lambda>i. reversed_cmd (commands P ! i) (end_before P i)) (rev [0..<?n])\<rparr>"
    using False by (rule reversed_nonempty)
  have lenQ: "length (commands ?Q) = ?n" by (simp add: Q)
  have Qne: "commands ?Q \<noteq> []" using lenQ n by auto
  have Qnth: "commands ?Q ! j = reversed_cmd (commands P ! (?n - 1 - j)) (end_before P (?n - 1 - j))"
    if "j < ?n" for j
    using that by (simp add: Q rev_nth)
  have R: "reversed ?Q = \<lparr>start = Path_end ?Q,
      commands = map (\<lambda>i. reversed_cmd (commands ?Q ! i) (end_before ?Q i)) (rev [0..<?n])\<rparr>"
    using reversed_nonempty [OF Qne] by (simp only: lenQ)
  have st: "Path_end ?Q = start P"
  proof -
    have "Path_end ?Q = cmd_end (commands ?Q ! (?n - 1))"
      using Qne lenQ by (simp add: Path_end_def last_conv_nth)
    also have "\<dots> = end_before P 0" using n by (simp add: Qnth)
    finally show ?thesis by (simp add: end_before_def)
  qed
  have eb: "end_before ?Q (?n - 1 - i) = cmd_end (commands P ! i)" if "i < ?n" for i
  proof (cases "?n - 1 - i = 0")
    case True
    then have "i = ?n - 1" using that by simp
    then show ?thesis using True False
      by (simp add: end_before_def Q Path_end_def last_conv_nth)
  next
    case F: False
    then obtain j where j: "?n - 1 - i = Suc j" by (cases "?n - 1 - i") auto
    then have jn: "j < ?n" and e: "?n - 1 - j = Suc i" using that by auto
    have "end_before ?Q (Suc j) = cmd_end (commands ?Q ! j)" by (simp add: end_before_def)
    also have "\<dots> = end_before P (Suc i)" by (simp only: Qnth [OF jn] e cmd_end_reversed_cmd)
    also have "\<dots> = cmd_end (commands P ! i)" by (simp add: end_before_def)
    finally show ?thesis by (simp only: j)
  qed
  have cm: "map (\<lambda>i. reversed_cmd (commands ?Q ! i) (end_before ?Q i)) (rev [0..<?n]) = commands P"
  proof (rule nth_equalityI)
    show "length (map (\<lambda>i. reversed_cmd (commands ?Q ! i) (end_before ?Q i)) (rev [0..<?n])) = ?n"
      by simp
  next
    fix i assume "i < length (map (\<lambda>i. reversed_cmd (commands ?Q ! i) (end_before ?Q i)) (rev [0..<?n]))"
    then have i: "i < ?n" by simp
    then have j: "?n - 1 - i < ?n" and e: "?n - 1 - (?n - 1 - i) = i" by auto
    have "map (\<lambda>i. reversed_cmd (commands ?Q ! i) (end_before ?Q i)) (rev [0..<?n]) ! i
        = reversed_cmd (commands ?Q ! (?n - 1 - i)) (end_before ?Q (?n - 1 - i))"
      using i by (simp add: rev_nth)
    also have "\<dots> = commands P ! i"
      by (simp only: Qnth [OF j] e eb [OF i] reversed_cmd_twice)
    finally show "map (\<lambda>i. reversed_cmd (commands ?Q ! i) (end_before ?Q i)) (rev [0..<?n]) ! i
        = commands P ! i" .
  qed
  have "reversed ?Q = P" by (simp add: R st cm)
  then show ?thesis using False by simp
qed

theorem reversed_reversed_witness:
  "reversed (reversed \<lparr>start = Vec3 0 0 0,
             commands = [LineTo (Vec3 1 0 0), Curve4To (Vec3 2 1 0) (Vec3 1 1 0) (Vec3 2 0 0)]\<rparr>)
     = \<lparr>start = Vec3 0 0 0,
             commands = [LineTo (Vec3 1 0 0), Curve4To (Vec3 2 1 0) (Vec3 1 1 0) (Vec3 2 0 0)]\<rparr> \<and>
   start (reversed (reversed (new_Path (Vec3 1 0 0)))) = NULLVEC"
  using reversed_reversed [of "\<lparr>start = Vec3 0 0 0,
             commands = [LineTo (Vec3 1 0 0), Curve4To (Vec3 2 1 0) (Vec3 1 1 0) (Vec3 2 0 0)]\<rparr>"]
    reversed_reversed [of "new_Path (Vec3 1 0 0)"]
  by (simp add: new_Path_def)

text \<open>
  The claim C3 as stated fails for an empty path whose start is not the origin: reversing
  twice moves the start point to the origin, which is not within tolerance of the start.
\<close>

theorem reversed_reversed_counterexample:
  "start (reversed (reversed (new_Path (Vec3 1 0 0)))) \<noteq> start (new_Path (Vec3 1 0 0)) \<and>
   \<not> Vec3_isclose (start (reversed (reversed (new_Path (Vec3 1 0 0)))))
       (start (new_Path (Vec3 1 0 0))) None"
  by (simp add: reversed_def new_Path_def NULLVEC_def Vec3_isclose_def abs_tol_1e9_def)

subsection \<open>Chains of curves\<close>

lemma add_curves4_loop_eq:
  "add_curves4_loop M self curves =
     self\<lparr>commands := commands self @ chain4 M (Path_end self) curves\<rparr>"
proof (induction curves arbitrary: self)
  case Nil
  show ?case by simp
next
  case (Cons curve curves)
  obtain s c1 c2 e where curve: "curve = Bezier4P (s, c1, c2, e)"
    by (cases curve) auto
  show ?case
    by (simp add: curve Cons.IH Let_def) (simp add: line_to_def curve4_to_def)
qed

lemma add_curves3_loop_eq:
  "add_curves3_loop M self curves =
     self\<lparr>commands := commands self @ chain3 M (Path_end self) curves\<rparr>"
proof (induction curves arbitrary: self)
  case Nil
  show ?case by simp
next
  case (Cons curve curves)
  obtain s c e where curve: "curve = Bezier3P (s, c, e)"
    by (cases curve) auto
  show ?case
    by (simp add: curve Cons.IH Let_def) (simp add: line_to_def curve3_to_def)
qed

lemma add_curves4_eq:
  "add_curves4 M P curves =
     P\<lparr>commands := commands P @ chain4 M (Path_end P)
        (if isclose M (Path_end P) (last_point4 (last curves)) None
         then rev (map reverse4 curves) else curves)\<rparr>"
  by (simp add: add_curves4_def add_curves4_loop_eq reverse_bezier_curves4_def Let_def)

lemma add_curves3_eq:
  "add_curves3 M P curves =
     P\<lparr>commands := commands P @ chain3 M (Path_end P)
        (if isclose M (Path_end P) (last_point3 (last curves)) None
         then rev (map reverse3 curves) else curves)\<rparr>"
  by (simp add: add_curves3_def add_curves3_loop_eq reverse_bezier_curves3_def Let_def)

text \<open>
  C1. For every path \<open>P\<close> and every non-empty list of cubic (quadratic) curves,
  \<^verbatim>\<open>add_curves4\<close> (\<^verbatim>\<open>add_curves3\<close>) appends to the commands of \<open>P\<close> the commands of the
  chain traversed from the end of \<open>P\<close>: the chain is the given list with every curve
  reversed and the order of the list reversed exactly when the end of \<open>P\<close> is close to the
  end point of the last curve (no other point is compared for that decision), and the given
  list otherwise; for each curve of the chain a connecting \<^verbatim>\<open>LineTo\<close> to its start point
  comes first exactly when that start point is not close to the running end, then the curve
  as a \<^verbatim>\<open>Curve4To\<close> (\<^verbatim>\<open>Curve3To\<close>).
\<close>

theorem add_curves_connect:
  "(curves4 \<noteq> [] \<longrightarrow>
      add_curves4 M P curves4 =
        P\<lparr>commands := commands P @ chain4 M (Path_end P)
           (if isclose M (Path_end P) (last_point4 (last curves4)) None
            then rev (map reverse4 curves4) else curves4)\<rparr>) \<and>
   (curves3 \<noteq> [] \<longrightarrow>
      add_curves3 M P curves3 =
        P\<lparr>commands := commands P @ chain3 M (Path_end P)
           (if isclose M (Path_end P) (last_point3 (last curves3)) None
            then rev (map reverse3 curves3) else curves3)\<rparr>)"
  by (simp only: add_curves4_eq add_curves3_eq simp_thms)

theorem add_curves_connect_witness:
  "add_curves4 example_math (new_Path (Vec3 0 0 0))
      [Bezier4P (Vec3 5 0 0, Vec3 5 1 0, Vec3 6 1 0, Vec3 6 0 0)]
     = \<lparr>start = Vec3 0 0 0,
        commands = [LineTo (Vec3 5 0 0), Curve4To (Vec3 6 0 0) (Vec3 5 1 0) (Vec3 6 1 0)]\<rparr> \<and>
   add_curves3 example_math (line_to (new_Path (Vec3 0 0 0)) (Vec3 2 0 0))
      [Bezier3P (Vec3 4 0 0, Vec3 4 1 0, Vec3 3 0 0), Bezier3P (Vec3 3 0 0, Vec3 2 1 0, Vec3 2 0 0)]
     = \<lparr>start = Vec3 0 0 0,
        commands = [LineTo (Vec3 2 0 0), Curve3To (Vec3 3 0 0) (Vec3 2 1 0),
                    Curve3To (Vec3 4 0 0) (Vec3 4 1 0)]\<rparr>"
  using add_curves_connect [of "[Bezier4P (Vec3 5 0 0, Vec3 5 1 0, Vec3 6 1 0, Vec3 6 0 0)]"
      example_math "new_Path (Vec3 0 0 0)"
      "[Bezier3P (Vec3 4 0 0, Vec3 4 1 0, Vec3 3 0 0), Bezier3P (Vec3 3 0 0, Vec3 2 1 0, Vec3 2 0 0)]"]
    add_curves_connect [of "[Bezier4P (Vec3 5 0 0, Vec3 5 1 0, Vec3 6 1 0, Vec3 6 0 0)]"
      example_math "line_to (new_Path (Vec3 0 0 0)) (Vec3 2 0 0)"
      "[Bezier3P (Vec3 4 0 0, Vec3 4 1 0, Vec3 3 0 0), Bezier3P (Vec3 3 0 0, Vec3 2 1 0, Vec3 2 0 0)]"]
  by (simp add: example_math_def Vec3_isclose_def abs_tol_1e9_def new_Path_def line_to_def
      Path_end_def)

subsection \<open>Sampling a path\<close>

lemma PathElement_attributes_simps [simp]:
  "attr_type PathElement_attributes = cmd_type"
  "attr_end PathElement_attributes = cmd_end"
  "attr_ctrl PathElement_attributes = ctrl"
  "attr_ctrl1 PathElement_attributes = ctrl1"
  "attr_ctrl2 PathElement_attributes = ctrl2"
  by (simp_all add: PathElement_attributes_def)

lemma approximate_loop_joint_points:
  assumes "\<And>s c e. f3 s c e \<noteq> []" and "\<And>s c1 c2 e. f4 s c1 c2 e \<noteq> []"
  shows "approximate_loop PathElement_attributes f3 f4 s cmds
    = (joint_points f3 f4 s cmds, None)"
proof (induction cmds arbitrary: s)
  case Nil
  show ?case by simp
next
  case (Cons cmd cmds)
  show ?case
  proof (cases cmd)
    case (LineTo e)
    then show ?thesis by (simp add: Cons.IH yield_from_def)
  next
    case (Curve3To e c)
    then show ?thesis using assms(1) [of s c e]
      by (cases "f3 s c e") (simp_all add: Cons.IH yield_from_def)
  next
    case (Curve4To e c1 c2)
    then show ?thesis using assms(2) [of s c1 c2 e]
      by (cases "f4 s c1 c2 e") (simp_all add: Cons.IH yield_from_def)
  qed
qed

lemma last_tl: "2 \<le> length xs \<Longrightarrow> tl xs \<noteq> [] \<and> last (tl xs) = last xs"
  by (cases xs) (auto split: if_splits)

lemma joint_points_last:
  assumes "\<And>s c e. 2 \<le> length (f3 s c e) \<and> last (f3 s c e) = e"
    and "\<And>s c1 c2 e. 2 \<le> length (f4 s c1 c2 e) \<and> last (f4 s c1 c2 e) = e"
  shows "cmds \<noteq> [] \<Longrightarrow>
    joint_points f3 f4 s cmds \<noteq> [] \<and> last (joint_points f3 f4 s cmds) = cmd_end (last cmds)"
proof (induction cmds arbitrary: s)
  case Nil
  then show ?case by simp
next
  case (Cons cmd cmds)
  have t3: "tl (f3 s c e) \<noteq> [] \<and> last (tl (f3 s c e)) = e" for s c e
    using last_tl [of "f3 s c e"] assms(1) [of s c e] by simp
  have t4: "tl (f4 s c1 c2 e) \<noteq> [] \<and> last (tl (f4 s c1 c2 e)) = e" for s c1 c2 e
    using last_tl [of "f4 s c1 c2 e"] assms(2) [of s c1 c2 e] by simp
  show ?case
  proof (cases "cmds = []")
    case True
    then show ?thesis using t3 t4
      by (cases cmd) simp_all
  next
    case False
    then show ?thesis using Cons.IH [OF False]
      by (cases cmd) simp_all
  qed
qed

lemma approximate_loop_lines:
  "\<forall>c \<in> set cmds. cmd_type c = LINE_TO \<Longrightarrow>
   approximate_loop PathElement_attributes f3 f4 s cmds = (map cmd_end cmds, None)"
  by (induction cmds arbitrary: s) (simp_all add: yield_from_def)

lemma Path_approximate_first:
  "commands P \<noteq> [] \<Longrightarrow>
   fst (Path_approximate P f3 f4) \<noteq> [] \<and> hd (fst (Path_approximate P f3 f4)) = start P"
  by (simp add: Path_approximate_def approximate_commands_def yield_from_def)

lemma Path_approximate_points:
  assumes "\<And>s c e. 2 \<le> length (f3 s c e) \<and> last (f3 s c e) = e"
    and "\<And>s c1 c2 e. 2 \<le> length (f4 s c1 c2 e) \<and> last (f4 s c1 c2 e) = e"
    and "commands P \<noteq> []"
  shows "Path_approximate P f3 f4 = (start P # joint_points f3 f4 (start P) (commands P), None)"
    and "last (fst (Path_approximate P f3 f4)) = Path_end P"
proof -
  have n3: "f3 s c e \<noteq> []" for s c e using assms(1) [of s c e] by auto
  have n4: "f4 s c1 c2 e \<noteq> []" for s c1 c2 e using assms(2) [of s c1 c2 e] by auto
  show eq: "Path_approximate P f3 f4 = (start P # joint_points f3 f4 (start P) (commands P), None)"
    using assms(3)
    by (simp add: Path_approximate_def approximate_commands_def
        approximate_loop_joint_points [of f3 f4, OF n3 n4] yield_from_def)
  show "last (fst (Path_approximate P f3 f4)) = Path_end P"
    using joint_points_last [of f3 f4 "commands P" "start P", OF assms] assms(3)
    by (simp add: eq Path_end_def)
qed

text \<open>
  C2. For every path, \<^verbatim>\<open>approximate(n)\<close> and \<^verbatim>\<open>flattening(d, n)\<close> yield no point at all when
  the path has no commands, and yield the start point first when it has some. With B\'ezier
  evaluators that, for \<open>n \<ge> 1\<close> and \<open>d > 0\<close>, sample a curve by at least two points ending
  at its end point, neither traversal raises, the points are the start point followed, for
  each command in turn, by the end point of a line or by the samples of a curve without the
  first of them (the start of the segment, yielded already), and the last point is the end of
  the path. A path of lines only yields its start and the end point of each line, whatever
  \<open>n\<close>, \<open>d\<close> and the evaluators are.
\<close>

theorem sampling_endpoints:
  "(commands P = [] \<longrightarrow> approximate M P n = ([], None) \<and> flattening M P d n = ([], None)) \<and>
   (commands P \<noteq> [] \<longrightarrow>
      fst (approximate M P n) \<noteq> [] \<and> hd (fst (approximate M P n)) = start P \<and>
      fst (flattening M P d n) \<noteq> [] \<and> hd (fst (flattening M P d n)) = start P) \<and>
   (commands P \<noteq> [] \<and> samplers_reach_end M \<and> 1 \<le> n \<and> 0 < d \<longrightarrow>
      approximate M P n =
        (start P # joint_points (\<lambda>s c e. bezier3_approximate M (Bezier3P (s, c, e)) n)
                     (\<lambda>s c1 c2 e. bezier4_approximate M (Bezier4P (s, c1, c2, e)) n)
                     (start P) (commands P), None) \<and>
      last (fst (approximate M P n)) = Path_end P \<and>
      flattening M P d n =
        (start P # joint_points (\<lambda>s c e. bezier3_flattening M (Bezier3P (s, c, e)) d n)
                     (\<lambda>s c1 c2 e. bezier4_flattening M (Bezier4P (s, c1, c2, e)) d n)
                     (start P) (commands P), None) \<and>
      last (fst (flattening M P d n)) = Path_end P) \<and>
   (commands P \<noteq> [] \<and> (\<forall>c \<in> set (commands P). cmd_type c = LINE_TO) \<longrightarrow>
      approximate M P n = (start P # map cmd_end (commands P), None) \<and>
      flattening M P d n = (start P # map cmd_end (commands P), None))"
proof (intro conjI impI)
  assume "commands P = []"
  then show "approximate M P n = ([], None)" "flattening M P d n = ([], None)"
    by (simp_all add: approximate_def flattening_def Path_approximate_def
        approximate_commands_def)
next
  assume "commands P \<noteq> []"
  then show "fst (approximate M P n) \<noteq> []" "hd (fst (approximate M P n)) = start P"
    "fst (flattening M P d n) \<noteq> []" "hd (fst (flattening M P d n)) = start P"
    by (simp_all add: approximate_def flattening_def Path_approximate_first)
next
  assume a: "commands P \<noteq> [] \<and> samplers_reach_end M \<and> 1 \<le> n \<and> 0 < d"
  then have ne: "commands P \<noteq> []" and c: "samplers_reach_end M" and n: "1 \<le> n" and d: "0 < d"
    by simp_all
  have a3: "2 \<le> length (bezier3_approximate M (Bezier3P (s, c, e)) n) \<and>
      last (bezier3_approximate M (Bezier3P (s, c, e)) n) = e" for s c e
    using c n by (simp add: samplers_reach_end_def)
  have a4: "2 \<le> length (bezier4_approximate M (Bezier4P (s, c1, c2, e)) n) \<and>
      last (bezier4_approximate M (Bezier4P (s, c1, c2, e)) n) = e" for s c1 c2 e
    using c n by (simp add: samplers_reach_end_def)
  have f3: "2 \<le> length (bezier3_flattening M (Bezier3P (s, c, e)) d n) \<and>
      last (bezier3_flattening M (Bezier3P (s, c, e)) d n) = e" for s c e
    using c n d by (simp add: samplers_reach_end_def)
  have f4: "2 \<le> length (bezier4_flattening M (Bezier4P (s, c1, c2, e)) d n) \<and>
      last (bezier4_flattening M (Bezier4P (s, c1, c2, e)) d n) = e" for s c1 c2 e
    using c n d by (simp add: samplers_reach_end_def)
  show "approximate M P n =
        (start P # joint_points (\<lambda>s c e. bezier3_approximate M (Bezier3P (s, c, e)) n)
                     (\<lambda>s c1 c2 e. bezier4_approximate M (Bezier4P (s, c1, c2, e)) n)
                     (start P) (commands P), None)"
    unfolding approximate_def by (rule Path_approximate_points(1) [OF a3 a4 ne])
  show "last (fst (approximate M P n)) = Path_end P"
    unfolding approximate_def by (rule Path_approximate_points(2) [OF a3 a4 ne])
  show "flattening M P d n =
        (start P # joint_points (\<lambda>s c e. bezier3_flattening M (Bezier3P (s, c, e)) d n)
                     (\<lambda>s c1 c2 e. bezier4_flattening M (Bezier4P (s, c1, c2, e)) d n)
                     (start P) (commands P), None)"
    unfolding flattening_def by (rule Path_approximate_points(1) [OF f3 f4 ne])
  show "last (fst (flattening M P d n)) = Path_end P"
    unfolding flattening_def by (rule Path_approximate_points(2) [OF f3 f4 ne])
next
  assume a: "commands P \<noteq> [] \<and> (\<forall>c \<in> set (commands P). cmd_type c = LINE_TO)"
  then show "approximate M P n = (start P # map cmd_end (commands P), None)"
    "flattening M P d n = (start P # map cmd_end (commands P), None)"
    by (simp_all add: approximate_def flattening_def Path_approximate_def
        approximate_commands_def approximate_loop_lines yield_from_def)
qed

theorem sampling_endpoints_witness:
  "samplers_reach_end example_math \<and>
   approximate example_math (new_Path (Vec3 7 7 7)) 4 = ([], None) \<and>
   flattening example_math (new_Path (Vec3 7 7 7)) (1 / 100) 4 = ([], None) \<and>
   approximate example_math
     \<lparr>start = Vec3 0 0 0,
      commands = [LineTo (Vec3 1 0 0), Curve4To (Vec3 2 1 0) (Vec3 1 1 0) (Vec3 2 0 0)]\<rparr> 4
     = ([Vec3 0 0 0, Vec3 1 0 0, Vec3 1 1 0, Vec3 2 0 0, Vec3 2 1 0], None) \<and>
   last (fst (flattening example_math
     \<lparr>start = Vec3 0 0 0,
      commands = [LineTo (Vec3 1 0 0), Curve4To (Vec3 2 1 0) (Vec3 1 1 0) (Vec3 2 0 0)]\<rparr>
     (1 / 100) 4)) = Vec3 2 1 0 \<and>
   approximate example_math \<lparr>start = Vec3 0 0 0, commands = [LineTo (Vec3 2 0 0)]\<rparr> 4
     = ([Vec3 0 0 0, Vec3 2 0 0], None)"
proof -
  let ?P = "\<lparr>start = Vec3 0 0 0,
      commands = [LineTo (Vec3 1 0 0), Curve4To (Vec3 2 1 0) (Vec3 1 1 0) (Vec3 2 0 0)]\<rparr>"
  have c: "samplers_reach_end example_math"
  proof -
    have "last_point3 b = (case control_points3 b of (s, c, e) \<Rightarrow> e)" for b
      by (cases b) auto
    moreover have "last_point4 b = (case control_points4 b of (s, c1, c2, e) \<Rightarrow> e)" for b
      by (cases b) auto
    ultimately show ?thesis
      by (simp add: samplers_reach_end_def example_math_def split: prod.splits)
  qed
  have e: "approximate example_math (new_Path (Vec3 7 7 7)) 4 = ([], None)"
    "flattening example_math (new_Path (Vec3 7 7 7)) (1 / 100) 4 = ([], None)"
    using sampling_endpoints [of "new_Path (Vec3 7 7 7)" example_math 4 "1 / 100"]
    by (simp_all add: new_Path_def)
  have h: "commands ?P \<noteq> [] \<and> samplers_reach_end example_math \<and> 1 \<le> (4::int) \<and>
      0 < (1 / 100 :: real)"
    using c by simp
  note t = sampling_endpoints [of ?P example_math 4 "1 / 100",
      THEN conjunct2, THEN conjunct2, THEN conjunct1, THEN mp, OF h]
  have p1: "approximate example_math ?P 4
      = ([Vec3 0 0 0, Vec3 1 0 0, Vec3 1 1 0, Vec3 2 0 0, Vec3 2 1 0], None)"
    using t [THEN conjunct1] by (simp add: example_math_def)
  have p2: "last (fst (flattening example_math ?P (1 / 100) 4)) = Vec3 2 1 0"
    using t [THEN conjunct2, THEN conjunct2, THEN conjunct2] by (simp add: Path_end_def)
  have l: "approximate example_math \<lparr>start = Vec3 0 0 0, commands = [LineTo (Vec3 2 0 0)]\<rparr> 4
     = ([Vec3 0 0 0, Vec3 2 0 0], None)"
    using sampling_endpoints [of "\<lparr>start = Vec3 0 0 0, commands = [LineTo (Vec3 2 0 0)]\<rparr>"
        example_math 4 "1 / 100"]
    by simp
  show ?thesis using c e p1 p2 l by simp
qed

subsection \<open>What the mutating methods keep\<close>

lemma start_add_curves4 [simp]: "start (add_curves4 M P curves) = start P"
  by (simp add: add_curves4_eq)

lemma start_add_curves3 [simp]: "start (add_curves3 M P curves) = start P"
  by (simp add: add_curves3_eq)

lemma prefix_add_curves4: "prefix (commands P) (commands (add_curves4 M P curves))"
  by (simp add: add_curves4_eq)

lemma prefix_add_curves3: "prefix (commands P) (commands (add_curves3 M P curves))"
  by (simp add: add_curves3_eq)

lemma bulge_to_start [simp]: "start (fst (bulge_to M P p1 p2 b)) = start P"
  by (simp add: bulge_to_def Let_def split: prod.splits list.splits)

lemma bulge_to_error: "snd (bulge_to M P p1 p2 b) \<noteq> Some InvalidState"
  by (simp add: bulge_to_def Let_def split: prod.splits list.splits)

lemma bulge_to_result:
  "bulge_to M P p1 p2 b = (P', e) \<Longrightarrow> start P' = start P \<and> e \<noteq> Some InvalidState"
  using bulge_to_start [of M P p1 p2 b] bulge_to_error [of M P p1 p2 b] by simp

lemma polyline_loop_start:
  "start (fst (fst (polyline_loop M P (Some prev) pb points))) = start P \<and>
   snd (polyline_loop M P (Some prev) pb points) \<noteq> Some InvalidState"
proof (induction points arbitrary: P prev pb)
  case Nil
  show ?case by simp
next
  case (Cons p points)
  obtain x y b where p: "p = (x, y, b)" by (cases p) auto
  show ?case
  proof (cases "pb \<noteq> 0")
    case True
    obtain P1 err where bt: "bulge_to M P prev (Vec3_xy x y) pb = (P1, err)"
      by (cases "bulge_to M P prev (Vec3_xy x y) pb") auto
    have s: "start P1 = start P" and e: "err \<noteq> Some InvalidState"
      using bulge_to_start [of M P prev "Vec3_xy x y" pb]
        bulge_to_error [of M P prev "Vec3_xy x y" pb] by (simp_all add: bt)
    show ?thesis
    proof (cases err)
      case None
      then show ?thesis using True Cons.IH [of P1] s
        by (simp add: p bt Let_def)
    next
      case (Some a)
      then show ?thesis using True s e
        by (simp add: p bt Let_def)
    qed
  next
    case False
    then show ?thesis using Cons.IH [of "line_to P (Vec3_xy x y)"]
      by (simp add: p Let_def) (simp add: line_to_def)
  qed
qed

lemma polyline_loop_first:
  "start (fst (fst (polyline_loop M P None pb ((x, y, b) # points)))) = Vec3_xy x y \<and>
   snd (polyline_loop M P None pb ((x, y, b) # points)) \<noteq> Some InvalidState"
  using polyline_loop_start [of M "P\<lparr>start := Vec3_xy x y\<rparr>" "Vec3_xy x y"]
  by (simp add: Let_def)

text \<open>
  C9. For every path, with or without commands, and every non-empty sequence of
  \<open>(x, y, bulge)\<close> triples, \<^verbatim>\<open>add_2d_polyline\<close> never raises the error of kind
  \<open>InvalidState\<close> and leaves the start point of the path at the point \<open>(x, y)\<close> of the first
  triple: mapped to the world frame when the call returns and the frame is not the identity
  or the elevation is not zero, as it is otherwise. The start setter refuses the same
  assignment on a path that holds a command.
\<close>

theorem add_2d_polyline_start:
  "snd (add_2d_polyline M P ((x, y, b) # points) do_close ocs elevation) \<noteq> Some InvalidState \<and>
   start (fst (add_2d_polyline M P ((x, y, b) # points) do_close ocs elevation)) =
     (if snd (add_2d_polyline M P ((x, y, b) # points) do_close ocs elevation) = None \<and>
         (transform ocs \<or> elevation \<noteq> 0)
      then to_wcs ocs (replace_z (Vec3_xy x y) elevation)
      else Vec3_xy x y) \<and>
   (commands P \<noteq> [] \<longrightarrow> start_setter P (Vec3_xy x y) = (P, Some InvalidState))"
proof -
  obtain P1 pb1 err1 where l: "polyline_loop M P None 0 ((x, y, b) # points) = ((P1, pb1), err1)"
    by (cases "polyline_loop M P None 0 ((x, y, b) # points)") auto
  have s1: "start P1 = Vec3_xy x y" and e1: "err1 \<noteq> Some InvalidState"
    using polyline_loop_first [of M P 0 x y b points] unfolding l by simp_all
  have setter: "commands P \<noteq> [] \<longrightarrow> start_setter P (Vec3_xy x y) = (P, Some InvalidState)"
    by (simp add: start_setter_def)
  show ?thesis
  proof (cases err1)
    case (Some e)
    then show ?thesis using s1 e1 setter
      by (simp add: add_2d_polyline_def l del: polyline_loop.simps)
  next
    case None
    let ?c = "(if do_close \<and> \<not> isclose M (start P1) (Path_end P1) None then
                   (if pb1 \<noteq> 0
                    then bulge_to M P1 (Path_end P1) (start P1) pb1
                    else (line_to P1 (start P1), None))
                 else (P1, None))"
    obtain P2 err2 where c: "?c = (P2, err2)" by (cases ?c) auto
    have s2: "start P2 = Vec3_xy x y"
      using c s1 by (auto simp: line_to_def split: if_splits dest: bulge_to_result)
    have e2: "err2 \<noteq> Some InvalidState"
      using c by (auto split: if_splits dest: bulge_to_result)
    have eq: "add_2d_polyline M P ((x, y, b) # points) do_close ocs elevation =
        (case (P2, err2) of
             (self2, Some e) \<Rightarrow> (self2, Some e)
           | (self2, None) \<Rightarrow>
               (if transform ocs \<or> elevation \<noteq> 0
                then (Path_to_wcs self2 ocs elevation, None)
                else (self2, None)))"
      using c by (simp add: add_2d_polyline_def l None del: polyline_loop.simps)
    show ?thesis
      by (cases err2) (use s2 e2 setter in \<open>simp_all add: eq Path_to_wcs_def\<close>)
  qed
qed

theorem add_2d_polyline_start_witness:
  "add_2d_polyline example_math (line_to (new_Path (Vec3 9 9 0)) (Vec3 5 5 0))
      [(2, 0, 1), (0, 0, 0)] False \<lparr>transform = False, to_wcs = (\<lambda>v. v)\<rparr> 5
     = (\<lparr>start = Vec3 2 0 5,
         commands = [LineTo (Vec3 5 5 5), LineTo (Vec3 2 0 5),
                     Curve4To (Vec3 0 0 5) (Vec3 2 1 5) (Vec3 0 1 5)]\<rparr>, None) \<and>
   start_setter (line_to (new_Path (Vec3 9 9 0)) (Vec3 5 5 0)) (Vec3_xy 2 0)
     = (line_to (new_Path (Vec3 9 9 0)) (Vec3 5 5 0), Some InvalidState)"
proof -
  let ?P = "line_to (new_Path (Vec3 9 9 0)) (Vec3 5 5 0)"
  let ?ocs = "\<lparr>transform = False, to_wcs = (\<lambda>v. v)\<rparr>"
  have ne: "commands ?P \<noteq> []" by (simp add: line_to_def)
  have bt: "bulge_to example_math (?P\<lparr>start := Vec3 2 0 0\<rparr>) (Vec3 2 0 0) (Vec3 0 0 0) 1
      = (\<lparr>start = Vec3 2 0 0,
          commands = [LineTo (Vec3 5 5 0), LineTo (Vec3 2 0 0),
                      Curve4To (Vec3 0 0 0) (Vec3 2 1 0) (Vec3 0 1 0)]\<rparr>, None)"
    by (simp add: bulge_to_def example_math_def Vec3_isclose_def abs_tol_1e9_def
        add_curves4_def line_to_def curve4_to_def Path_end_def new_Path_def Let_def)
  have ev: "add_2d_polyline example_math ?P [(2, 0, 1), (0, 0, 0)] False ?ocs 5
     = (\<lparr>start = Vec3 2 0 5,
         commands = [LineTo (Vec3 5 5 5), LineTo (Vec3 2 0 5),
                     Curve4To (Vec3 0 0 5) (Vec3 2 1 5) (Vec3 0 1 5)]\<rparr>, None)"
    by (simp add: add_2d_polyline_def Vec3_xy_def bt Let_def Path_to_wcs_def replace_z_def)
  show ?thesis
    using add_2d_polyline_start [of example_math ?P 2 0 1 "[(0, 0, 0)]" False ?ocs 5] ne ev
    by simp
qed

lemma add_ellipse_result:
  "snd (add_ellipse M P ellipse segments reset) = None \<and>
   prefix (commands P) (commands (fst (add_ellipse M P ellipse segments reset))) \<and>
   (commands P \<noteq> [] \<longrightarrow> start (fst (add_ellipse M P ellipse segments reset)) = start P)"
  by (simp add: add_ellipse_def start_setter_def prefix_add_curves4)

lemma add_spline_result:
  "snd (add_spline M P spline level reset) = None \<and>
   prefix (commands P) (commands (fst (add_spline M P spline level reset))) \<and>
   (commands P \<noteq> [] \<longrightarrow> start (fst (add_spline M P spline level reset)) = start P)"
  by (simp add: add_spline_def start_setter_def prefix_add_curves4 Let_def)

text \<open>
  C10. For every path, each of \<^verbatim>\<open>line_to\<close>, \<^verbatim>\<open>curve3_to\<close>, \<^verbatim>\<open>curve4_to\<close>,
  \<^verbatim>\<open>close\<close>, \<^verbatim>\<open>add_curves3\<close>, \<^verbatim>\<open>add_curves4\<close>, \<^verbatim>\<open>add_ellipse\<close> and \<^verbatim>\<open>add_spline\<close>
  leaves the commands of the path as a prefix of its commands after the call, and leaves the
  start point as it was when the path held a command before the call. \<^verbatim>\<open>add_ellipse\<close> and
  \<^verbatim>\<open>add_spline\<close> never raise, so the path they return is the path after the call.
\<close>

theorem mutators_append_only:
  "prefix (commands P) (commands (line_to P v)) \<and>
   prefix (commands P) (commands (curve3_to P v c)) \<and>
   prefix (commands P) (commands (curve4_to P v c1 c2)) \<and>
   prefix (commands P) (commands (close M P)) \<and>
   prefix (commands P) (commands (add_curves3 M P curves3)) \<and>
   prefix (commands P) (commands (add_curves4 M P curves4)) \<and>
   prefix (commands P) (commands (fst (add_ellipse M P ellipse segments reset))) \<and>
   prefix (commands P) (commands (fst (add_spline M P spline level reset))) \<and>
   snd (add_ellipse M P ellipse segments reset) = None \<and>
   snd (add_spline M P spline level reset) = None \<and>
   (commands P \<noteq> [] \<longrightarrow>
      start (line_to P v) = start P \<and>
      start (curve3_to P v c) = start P \<and>
      start (curve4_to P v c1 c2) = start P \<and>
      start (close M P) = start P \<and>
      start (add_curves3 M P curves3) = start P \<and>
      start (add_curves4 M P curves4) = start P \<and>
      start (fst (add_ellipse M P ellipse segments reset)) = start P \<and>
      start (fst (add_spline M P spline level reset)) = start P)"
proof -
  have "prefix (commands P) (commands (line_to P v))"
    "prefix (commands P) (commands (curve3_to P v c))"
    "prefix (commands P) (commands (curve4_to P v c1 c2))"
    "prefix (commands P) (commands (close M P))"
    by (simp_all add: line_to_def curve3_to_def curve4_to_def close_def)
  moreover have "start (line_to P v) = start P" "start (curve3_to P v c) = start P"
    "start (curve4_to P v c1 c2) = start P" "start (close M P) = start P"
    by (simp_all add: line_to_def curve3_to_def curve4_to_def close_def)
  ultimately show ?thesis
    using add_ellipse_result [of M P ellipse segments reset]
      add_spline_result [of M P spline level reset]
      prefix_add_curves3 [of P M curves3] prefix_add_curves4 [of P M curves4]
    by simp
qed

theorem mutators_append_only_witness:
  "commands (line_to (new_Path (Vec3 0 0 0)) (Vec3 2 0 0)) \<noteq> [] \<and>
   add_ellipse example_math (line_to (new_Path (Vec3 0 0 0)) (Vec3 2 0 0)) (Vec3 1 0 0, 1) 1 True
     = (\<lparr>start = Vec3 0 0 0,
         commands = [LineTo (Vec3 2 0 0), Curve4To (Vec3 0 0 0) (Vec3 2 1 0) (Vec3 0 1 0)]\<rparr>,
        None) \<and>
   prefix (commands (line_to (new_Path (Vec3 0 0 0)) (Vec3 2 0 0)))
     (commands (fst (add_ellipse example_math (line_to (new_Path (Vec3 0 0 0)) (Vec3 2 0 0))
        (Vec3 1 0 0, 1) 1 True))) \<and>
   start (fst (add_ellipse example_math (line_to (new_Path (Vec3 0 0 0)) (Vec3 2 0 0))
        (Vec3 1 0 0, 1) 1 True)) = start (line_to (new_Path (Vec3 0 0 0)) (Vec3 2 0 0))"
proof -
  let ?P = "line_to (new_Path (Vec3 0 0 0)) (Vec3 2 0 0)"
  have ne: "commands ?P \<noteq> []" by (simp add: line_to_def)
  have ev: "add_ellipse example_math ?P (Vec3 1 0 0, 1) 1 True
     = (\<lparr>start = Vec3 0 0 0,
         commands = [LineTo (Vec3 2 0 0), Curve4To (Vec3 0 0 0) (Vec3 2 1 0) (Vec3 0 1 0)]\<rparr>,
        None)"
    by (simp add: add_ellipse_def example_math_def Vec3_isclose_def abs_tol_1e9_def
        add_curves4_def line_to_def curve4_to_def Path_end_def new_Path_def Let_def)
  have "prefix (commands ?P)
     (commands (fst (add_ellipse example_math ?P (Vec3 1 0 0, 1) 1 True)))"
    and "start (fst (add_ellipse example_math ?P (Vec3 1 0 0, 1) 1 True)) = start ?P"
    using mutators_append_only [of ?P _ _ _ _ example_math _ _ "(Vec3 1 0 0, 1)" 1 True] ne
    by blast+
  then show ?thesis using ne ev by simp
qed

subsection \<open>The unsupported command\<close>

lemma approximate_loop_foreign:
  "\<not> supported_kind (attr_type A cmd) \<Longrightarrow>
   approximate_loop A f3 f4 s (cmd # cmds) = ([], Some UnsupportedCommand)"
  by (simp add: supported_kind_def)

lemma approximate_loop_step:
  assumes "supported_kind (attr_type A cmd)"
  shows "(\<exists>pts. \<forall>cmds. approximate_loop A f3 f4 s (cmd # cmds)
            = yield_from pts (approximate_loop A f3 f4 (attr_end A cmd) cmds)) \<or>
         (\<forall>cmds. approximate_loop A f3 f4 s (cmd # cmds) = ([], Some StopIterationError))"
proof -
  consider "attr_type A cmd = LINE_TO" | "attr_type A cmd = CURVE3_TO"
    | "attr_type A cmd = CURVE4_TO"
    using assms by (auto simp: supported_kind_def)
  then show ?thesis
  proof cases
    case 1
    then have "\<forall>cmds. approximate_loop A f3 f4 s (cmd # cmds)
        = yield_from [attr_end A cmd] (approximate_loop A f3 f4 (attr_end A cmd) cmds)"
      by (simp add: Let_def)
    then show ?thesis by blast
  next
    case 2
    show ?thesis
    proof (cases "f3 s (attr_ctrl A cmd) (attr_end A cmd)")
      case Nil
      then show ?thesis using 2 by (simp add: Let_def)
    next
      case (Cons p pts)
      then have "\<forall>cmds. approximate_loop A f3 f4 s (cmd # cmds)
          = yield_from pts (approximate_loop A f3 f4 (attr_end A cmd) cmds)"
        using 2 by (simp add: Let_def)
      then show ?thesis by blast
    qed
  next
    case 3
    show ?thesis
    proof (cases "f4 s (attr_ctrl1 A cmd) (attr_ctrl2 A cmd) (attr_end A cmd)")
      case Nil
      then show ?thesis using 3 by (simp add: Let_def)
    next
      case (Cons p pts)
      then have "\<forall>cmds. approximate_loop A f3 f4 s (cmd # cmds)
          = yield_from pts (approximate_loop A f3 f4 (attr_end A cmd) cmds)"
        using 3 by (simp add: Let_def)
      then show ?thesis by blast
    qed
  qed
qed

lemma foreign_after_supported:
  assumes "supported_kind (attr_type A cmd)"
  shows "(\<exists>pre c post. cmd # cmds = pre @ c # post \<and> \<not> supported_kind (attr_type A c) \<and> Q pre)
     \<longleftrightarrow> (\<exists>pre c post. cmds = pre @ c # post \<and> \<not> supported_kind (attr_type A c)
            \<and> Q (cmd # pre))"
proof
  assume "\<exists>pre c post. cmd # cmds = pre @ c # post \<and> \<not> supported_kind (attr_type A c) \<and> Q pre"
  then obtain pre c post where d: "cmd # cmds = pre @ c # post"
    and f: "\<not> supported_kind (attr_type A c)" and q: "Q pre" by blast
  from d f assms obtain pre' where "pre = cmd # pre'" and "cmds = pre' @ c # post"
    by (cases pre) auto
  with f q show "\<exists>pre c post. cmds = pre @ c # post \<and> \<not> supported_kind (attr_type A c)
      \<and> Q (cmd # pre)" by blast
next
  assume "\<exists>pre c post. cmds = pre @ c # post \<and> \<not> supported_kind (attr_type A c)
      \<and> Q (cmd # pre)"
  then obtain pre c post where "cmds = pre @ c # post"
    and f: "\<not> supported_kind (attr_type A c)" and q: "Q (cmd # pre)" by blast
  then have "cmd # cmds = (cmd # pre) @ c # post" by simp
  with f q show "\<exists>pre c post. cmd # cmds = pre @ c # post \<and> \<not> supported_kind (attr_type A c)
      \<and> Q pre" by blast
qed

lemma approximate_loop_unsupported:
  "snd (approximate_loop A f3 f4 s cmds) = Some UnsupportedCommand \<longleftrightarrow>
   (\<exists>pre c post. cmds = pre @ c # post \<and> \<not> supported_kind (attr_type A c) \<and>
      snd (approximate_loop A f3 f4 s pre) = None)"
proof (induction cmds arbitrary: s)
  case Nil
  show ?case by simp
next
  case (Cons cmd cmds)
  show ?case
  proof (cases "supported_kind (attr_type A cmd)")
    case False
    have "cmd # cmds = [] @ cmd # cmds \<and> \<not> supported_kind (attr_type A cmd) \<and>
        snd (approximate_loop A f3 f4 s []) = None"
      using False by simp
    then have "\<exists>pre c post. cmd # cmds = pre @ c # post \<and> \<not> supported_kind (attr_type A c) \<and>
        snd (approximate_loop A f3 f4 s pre) = None" by blast
    then show ?thesis
      by (simp add: approximate_loop_foreign [OF False] del: approximate_loop.simps)
  next
    case True
    note split = foreign_after_supported [OF True, of cmds
        "\<lambda>pre. snd (approximate_loop A f3 f4 s pre) = None"]
    from approximate_loop_step [OF True, of f3 f4 s] show ?thesis
    proof
      assume "\<exists>pts. \<forall>cmds. approximate_loop A f3 f4 s (cmd # cmds)
            = yield_from pts (approximate_loop A f3 f4 (attr_end A cmd) cmds)"
      then obtain pts where st: "approximate_loop A f3 f4 s (cmd # cmds)
            = yield_from pts (approximate_loop A f3 f4 (attr_end A cmd) cmds)" for cmds
        by blast
      show ?thesis
        unfolding split by (simp only: st yield_from_def snd_conv Cons.IH)
    next
      assume st: "\<forall>cmds. approximate_loop A f3 f4 s (cmd # cmds) = ([], Some StopIterationError)"
      show ?thesis
        unfolding split by (simp add: st del: approximate_loop.simps)
    qed
  qed
qed

lemma approximate_commands_unsupported:
  "snd (approximate_commands A s cmds f3 f4) = Some UnsupportedCommand \<longleftrightarrow>
   (\<exists>pre c post. cmds = pre @ c # post \<and> \<not> supported_kind (attr_type A c) \<and>
      snd (approximate_commands A s pre f3 f4) = None)"
proof -
  have "snd (approximate_commands A s xs f3 f4) = snd (approximate_loop A f3 f4 s xs)" for xs
    by (cases xs) (simp_all add: approximate_commands_def yield_from_def
        del: approximate_loop.simps(2))
  then show ?thesis by (simp only: approximate_loop_unsupported)
qed

lemma chain4_supported: "c \<in> set (chain4 M e curves) \<Longrightarrow> supported_kind (cmd_type c)"
proof (induction curves arbitrary: e)
  case Nil
  then show ?case by simp
next
  case (Cons curve curves)
  obtain s c1 c2 e' where "curve = Bezier4P (s, c1, c2, e')" by (cases curve) auto
  with Cons show ?case by (auto simp: supported_kind_def split: if_splits)
qed

lemma chain3_supported: "c \<in> set (chain3 M e curves) \<Longrightarrow> supported_kind (cmd_type c)"
proof (induction curves arbitrary: e)
  case Nil
  then show ?case by simp
next
  case (Cons curve curves)
  obtain s c1 e' where "curve = Bezier3P (s, c1, e')" by (cases curve) auto
  with Cons show ?case by (auto simp: supported_kind_def split: if_splits)
qed

lemma line_to_supported: "commands_supported P \<Longrightarrow> commands_supported (line_to P v)"
  by (simp add: commands_supported_def line_to_def supported_kind_def)

lemma curve3_to_supported: "commands_supported P \<Longrightarrow> commands_supported (curve3_to P v c)"
  by (simp add: commands_supported_def curve3_to_def supported_kind_def)

lemma curve4_to_supported:
  "commands_supported P \<Longrightarrow> commands_supported (curve4_to P v c1 c2)"
  by (simp add: commands_supported_def curve4_to_def supported_kind_def)

lemma start_update_supported [simp]:
  "commands_supported (P\<lparr>start := v\<rparr>) = commands_supported P"
  by (simp add: commands_supported_def)

lemma line_to_each_supported:
  "commands_supported P \<Longrightarrow> commands_supported (line_to_each P vs)"
  by (induction vs arbitrary: P) (simp_all add: line_to_supported)

lemma close_supported: "commands_supported P \<Longrightarrow> commands_supported (close M P)"
  by (simp add: close_def line_to_supported)

lemma add_curves4_supported:
  "commands_supported P \<Longrightarrow> commands_supported (add_curves4 M P curves)"
  by (auto simp: commands_supported_def add_curves4_eq dest: chain4_supported)

lemma add_curves3_supported:
  "commands_supported P \<Longrightarrow> commands_supported (add_curves3 M P curves)"
  by (auto simp: commands_supported_def add_curves3_eq dest: chain3_supported)

lemma bulge_to_supported:
  "commands_supported P \<Longrightarrow> commands_supported (fst (bulge_to M P p1 p2 b))"
  by (simp add: bulge_to_def Let_def add_curves4_supported split: prod.splits list.splits)

lemma polyline_loop_supported:
  "commands_supported P \<Longrightarrow>
   commands_supported (fst (fst (polyline_loop M P prev pb points)))"
proof (induction points arbitrary: P prev pb)
  case Nil
  then show ?case by simp
next
  case (Cons p points)
  obtain x y b where p: "p = (x, y, b)" by (cases p) auto
  show ?case
  proof (cases prev)
    case None
    have "commands_supported (P\<lparr>start := Vec3_xy x y\<rparr>)"
      using Cons.prems by simp
    from Cons.IH [OF this] show ?thesis by (simp add: p None Let_def)
  next
    case (Some pp)
    show ?thesis
    proof (cases "pb \<noteq> 0")
      case True
      obtain P1 err where bt: "bulge_to M P pp (Vec3_xy x y) pb = (P1, err)"
        by (cases "bulge_to M P pp (Vec3_xy x y) pb") auto
      have s: "commands_supported P1"
        using bulge_to_supported [OF Cons.prems, of M pp "Vec3_xy x y" pb] by (simp add: bt)
      show ?thesis
      proof (cases err)
        case None
        then show ?thesis using True Cons.IH [OF s] by (simp add: p Some bt Let_def)
      next
        case (Some a)
        then show ?thesis using True s by (simp add: p \<open>prev = Some pp\<close> bt Let_def)
      qed
    next
      case False
      from Cons.IH [OF line_to_supported [OF Cons.prems]] False show ?thesis
        by (simp add: p Some Let_def)
    qed
  qed
qed

lemma cmd_type_cmd_to_wcs [simp]: "cmd_type (cmd_to_wcs c ocs elevation) = cmd_type c"
  by (cases c) simp_all

lemma Path_to_wcs_supported:
  "commands_supported P \<Longrightarrow> commands_supported (Path_to_wcs P ocs elevation)"
  by (simp add: commands_supported_def Path_to_wcs_def)

lemma add_2d_polyline_supported:
  assumes "commands_supported P"
  shows "commands_supported (fst (add_2d_polyline M P points do_close ocs elevation))"
proof -
  obtain P1 pb1 err1 where l: "polyline_loop M P None 0 points = ((P1, pb1), err1)"
    by (cases "polyline_loop M P None 0 points") auto
  have s1: "commands_supported P1"
    using polyline_loop_supported [OF assms, of M None 0 points] by (simp add: l)
  show ?thesis
  proof (cases err1)
    case (Some e)
    then show ?thesis using s1 by (simp add: add_2d_polyline_def l)
  next
    case None
    let ?c = "(if do_close \<and> \<not> isclose M (start P1) (Path_end P1) None then
                   (if pb1 \<noteq> 0
                    then bulge_to M P1 (Path_end P1) (start P1) pb1
                    else (line_to P1 (start P1), None))
                 else (P1, None))"
    obtain P2 err2 where c: "?c = (P2, err2)" by (cases ?c) auto
    have "commands_supported (fst ?c)"
      by (simp add: s1 bulge_to_supported [OF s1] line_to_supported [OF s1])
    then have s2: "commands_supported P2"
      by (simp only: c fst_conv)
    have eq: "add_2d_polyline M P points do_close ocs elevation =
        (case (P2, err2) of
             (self2, Some e) \<Rightarrow> (self2, Some e)
           | (self2, None) \<Rightarrow>
               (if transform ocs \<or> elevation \<noteq> 0
                then (Path_to_wcs self2 ocs elevation, None)
                else (self2, None)))"
      using c by (simp add: add_2d_polyline_def l None)
    show ?thesis
      by (cases err2) (use s2 in \<open>simp_all add: eq Path_to_wcs_supported\<close>)
  qed
qed

lemma add_ellipse_supported:
  "commands_supported P \<Longrightarrow>
   commands_supported (fst (add_ellipse M P ellipse segments reset))"
  by (simp add: add_ellipse_def start_setter_def add_curves4_supported)

lemma add_spline_supported:
  "commands_supported P \<Longrightarrow> commands_supported (fst (add_spline M P spline level reset))"
  by (simp add: add_spline_def start_setter_def Let_def add_curves4_supported)

lemma new_Path_supported: "commands_supported (new_Path s)"
  by (simp add: commands_supported_def new_Path_def)

lemma from_vertices_supported: "commands_supported (from_vertices M vertices do_close)"
  by (simp add: from_vertices_def Let_def close_supported line_to_each_supported
      new_Path_supported)

lemma built_by_api_supported: "built_by_api M P \<Longrightarrow> commands_supported P"
proof (induction rule: built_by_api.induct)
  case (built_new s)
  show ?case by (rule new_Path_supported)
next
  case (built_from_vertices vertices do_close)
  show ?case by (rule from_vertices_supported)
next
  case (built_line_to P v)
  then show ?case by (simp add: line_to_supported)
next
  case (built_curve3_to P v c)
  then show ?case by (simp add: curve3_to_supported)
next
  case (built_curve4_to P v c1 c2)
  then show ?case by (simp add: curve4_to_supported)
next
  case (built_close P)
  then show ?case by (simp add: close_supported)
next
  case (built_add_curves3 P curves3)
  then show ?case by (simp add: add_curves3_supported)
next
  case (built_add_curves4 P curves4)
  then show ?case by (simp add: add_curves4_supported)
next
  case (built_add_2d_polyline P points do_close ocs elevation)
  then show ?case by (simp add: add_2d_polyline_supported)
next
  case (built_add_ellipse P ellipse segments reset)
  then show ?case by (simp add: add_ellipse_supported)
next
  case (built_add_spline P spline level reset)
  then show ?case by (simp add: add_spline_supported)
qed

lemma supported_path_traversal:
  assumes "commands_supported P"
  shows "snd (Path_approximate P f3 f4) \<noteq> Some UnsupportedCommand"
proof
  assume "snd (Path_approximate P f3 f4) = Some UnsupportedCommand"
  then obtain pre c post where "commands P = pre @ c # post"
    and "\<not> supported_kind (attr_type PathElement_attributes c)"
    unfolding Path_approximate_def approximate_commands_unsupported by blast
  then show False using assms by (simp add: commands_supported_def)
qed

text \<open>
  C8. The traversal behind \<^verbatim>\<open>approximate\<close> and \<^verbatim>\<open>flattening\<close> ends with the error of kind
  \<open>UnsupportedCommand\<close> exactly when the command list has an element whose kind is none of
  \<^verbatim>\<open>LINE_TO\<close>, \<^verbatim>\<open>CURVE3_TO\<close>, \<^verbatim>\<open>CURVE4_TO\<close> and the traversal of the elements before it
  raises nothing, whatever the elements of the list are. \<^verbatim>\<open>approximate\<close> and \<^verbatim>\<open>flattening\<close>
  are this traversal on the commands of the path, and every path built through the public
  interface holds only commands of the three kinds, so that neither of the two ends with that
  error on it.
\<close>

theorem unsupported_command_unreachable:
  "(snd (approximate_commands A s cmds f3 f4) = Some UnsupportedCommand \<longleftrightarrow>
      (\<exists>pre c post. cmds = pre @ c # post \<and> \<not> supported_kind (attr_type A c) \<and>
         snd (approximate_commands A s pre f3 f4) = None)) \<and>
   approximate M P n =
     approximate_commands PathElement_attributes (start P) (commands P)
       (\<lambda>s c e. bezier3_approximate M (Bezier3P (s, c, e)) n)
       (\<lambda>s c1 c2 e. bezier4_approximate M (Bezier4P (s, c1, c2, e)) n) \<and>
   flattening M P d n =
     approximate_commands PathElement_attributes (start P) (commands P)
       (\<lambda>s c e. bezier3_flattening M (Bezier3P (s, c, e)) d n)
       (\<lambda>s c1 c2 e. bezier4_flattening M (Bezier4P (s, c1, c2, e)) d n) \<and>
   (built_by_api M P \<longrightarrow>
      (\<forall>c \<in> set (commands P). supported_kind (attr_type PathElement_attributes c)) \<and>
      snd (approximate M P n) \<noteq> Some UnsupportedCommand \<and>
      snd (flattening M P d n) \<noteq> Some UnsupportedCommand)"
proof (intro conjI impI)
  show "snd (approximate_commands A s cmds f3 f4) = Some UnsupportedCommand \<longleftrightarrow>
      (\<exists>pre c post. cmds = pre @ c # post \<and> \<not> supported_kind (attr_type A c) \<and>
         snd (approximate_commands A s pre f3 f4) = None)"
    by (rule approximate_commands_unsupported)
next
  show "approximate M P n =
     approximate_commands PathElement_attributes (start P) (commands P)
       (\<lambda>s c e. bezier3_approximate M (Bezier3P (s, c, e)) n)
       (\<lambda>s c1 c2 e. bezier4_approximate M (Bezier4P (s, c1, c2, e)) n)"
    by (simp add: approximate_def Path_approximate_def)
next
  show "flattening M P d n =
     approximate_commands PathElement_attributes (start P) (commands P)
       (\<lambda>s c e. bezier3_flattening M (Bezier3P (s, c, e)) d n)
       (\<lambda>s c1 c2 e. bezier4_flattening M (Bezier4P (s, c1, c2, e)) d n)"
    by (simp add: flattening_def Path_approximate_def)
next
  assume "built_by_api M P"
  then have s: "commands_supported P" by (rule built_by_api_supported)
  then show "\<forall>c \<in> set (commands P). supported_kind (attr_type PathElement_attributes c)"
    by (simp add: commands_supported_def)
  show "snd (approximate M P n) \<noteq> Some UnsupportedCommand"
    unfolding approximate_def by (rule supported_path_traversal [OF s])
  show "snd (flattening M P d n) \<noteq> Some UnsupportedCommand"
    unfolding flattening_def by (rule supported_path_traversal [OF s])
qed

theorem unsupported_command_unreachable_witness:
  "snd (approximate_commands
          \<lparr>attr_type = fst, attr_end = snd, attr_ctrl = snd, attr_ctrl1 = snd, attr_ctrl2 = snd\<rparr>
          (Vec3 0 0 0) [(LINE_TO, Vec3 1 0 0), (START_PATH, Vec3 2 0 0), (LINE_TO, Vec3 3 0 0)]
          (\<lambda>s c e. [s, e]) (\<lambda>s c1 c2 e. [s, e])) = Some UnsupportedCommand \<and>
   fst (approximate_commands
          \<lparr>attr_type = fst, attr_end = snd, attr_ctrl = snd, attr_ctrl1 = snd, attr_ctrl2 = snd\<rparr>
          (Vec3 0 0 0) [(LINE_TO, Vec3 1 0 0), (START_PATH, Vec3 2 0 0), (LINE_TO, Vec3 3 0 0)]
          (\<lambda>s c e. [s, e]) (\<lambda>s c1 c2 e. [s, e])) = [Vec3 0 0 0, Vec3 1 0 0] \<and>
   built_by_api example_math
     (add_curves4 example_math (line_to (new_Path (Vec3 0 0 0)) (Vec3 1 0 0))
        [Bezier4P (Vec3 1 0 0, Vec3 1 1 0, Vec3 2 0 0, Vec3 2 1 0)]) \<and>
   snd (approximate example_math
     (add_curves4 example_math (line_to (new_Path (Vec3 0 0 0)) (Vec3 1 0 0))
        [Bezier4P (Vec3 1 0 0, Vec3 1 1 0, Vec3 2 0 0, Vec3 2 1 0)]) 4)
     \<noteq> Some UnsupportedCommand \<and>
   snd (flattening example_math
     (add_curves4 example_math (line_to (new_Path (Vec3 0 0 0)) (Vec3 1 0 0))
        [Bezier4P (Vec3 1 0 0, Vec3 1 1 0, Vec3 2 0 0, Vec3 2 1 0)]) (1 / 100) 4)
     \<noteq> Some UnsupportedCommand"
proof -
  let ?A = "\<lparr>attr_type = fst, attr_end = snd, attr_ctrl = snd, attr_ctrl1 = snd,
      attr_ctrl2 = snd\<rparr> :: (Command \<times> Vec3) element_attributes"
  let ?cmds = "[(LINE_TO, Vec3 1 0 0), (START_PATH, Vec3 2 0 0), (LINE_TO, Vec3 3 0 0)]"
  let ?f3 = "\<lambda>(s::Vec3) (c::Vec3) (e::Vec3). [s, e]"
  let ?f4 = "\<lambda>(s::Vec3) (c1::Vec3) (c2::Vec3) (e::Vec3). [s, e]"
  let ?P = "add_curves4 example_math (line_to (new_Path (Vec3 0 0 0)) (Vec3 1 0 0))
        [Bezier4P (Vec3 1 0 0, Vec3 1 1 0, Vec3 2 0 0, Vec3 2 1 0)]"
  note t = unsupported_command_unreachable [of ?A "Vec3 0 0 0" ?cmds ?f3 ?f4 example_math ?P 4
      "1 / 100"]
  have "?cmds = [(LINE_TO, Vec3 1 0 0)] @ (START_PATH, Vec3 2 0 0) # [(LINE_TO, Vec3 3 0 0)] \<and>
      \<not> supported_kind (attr_type ?A (START_PATH, Vec3 2 0 0)) \<and>
      snd (approximate_commands ?A (Vec3 0 0 0) [(LINE_TO, Vec3 1 0 0)] ?f3 ?f4) = None"
    by (simp add: supported_kind_def approximate_commands_def yield_from_def)
  then have "\<exists>pre c post. ?cmds = pre @ c # post \<and> \<not> supported_kind (attr_type ?A c) \<and>
      snd (approximate_commands ?A (Vec3 0 0 0) pre ?f3 ?f4) = None"
    by blast
  then have raised: "snd (approximate_commands ?A (Vec3 0 0 0) ?cmds ?f3 ?f4)
      = Some UnsupportedCommand"
    using t [THEN conjunct1] by (rule iffD2 [rotated])
  have yielded: "fst (approximate_commands ?A (Vec3 0 0 0) ?cmds ?f3 ?f4)
      = [Vec3 0 0 0, Vec3 1 0 0]"
    by (simp add: approximate_commands_def yield_from_def)
  have b: "built_by_api example_math ?P"
    by (intro built_add_curves4 built_line_to built_new)
  note api = t [THEN conjunct2, THEN conjunct2, THEN conjunct2, THEN mp, OF b]
  show ?thesis
    using raised yielded b api [THEN conjunct2] by (intro conjI) simp_all
qed

end
